(* ===== verification/Prelude.thy ===== *)
theory Prelude
  imports Complex_Main
begin

text \<open>
  Shared vocabulary of the CynLock development (\<open>src/acc.py\<close>). It holds
  \<^item> the Python exceptions that the request handlers can raise (\<open>pyexc\<close>) and the
    result type \<open>'a res = pyexc + 'a\<close> of every fallible computation, with its bind
    \<open>res_bind\<close> (a raise ends the computation, as it does in Python);
  \<^item> the collection \<open>score_simps\<close> of evaluation lemmas that the scoring theories add to,
    so that witnesses and component proofs evaluate with \<open>simp add: score_simps\<close>;
  \<^item> generic facts on reals (square roots against constants, floors) that several
    components share.
\<close>

named_theorems score_simps "evaluation lemmas of the scoring and decision functions"

section \<open>Exceptions and fallible results\<close>

text \<open>
  The exceptions the handlers of \<open>src/acc.py\<close> can meet: \<open>TypeError\<close> (\<open>float(None)\<close>,
  \<open>float - str\<close>), \<open>ValueError\<close> (\<open>float('abc')\<close>, \<open>math.sqrt\<close> of a negative number),
  \<open>AttributeError\<close> (\<open>.get\<close> or \<open>.encode\<close> on a value that is not a dict or a str), and
  \<open>DatabaseError\<close> (the MySQL connector: no connection, or a parameter it cannot
  send).
\<close>

datatype pyexc = TypeError | ValueError | AttributeError | DatabaseError

type_synonym 'a res = "pyexc + 'a"

definition res_bind :: "'a res \<Rightarrow> ('a \<Rightarrow> 'b res) \<Rightarrow> 'b res" where
  "res_bind r f = (case r of Inl e \<Rightarrow> Inl e | Inr x \<Rightarrow> f x)"

lemma res_bind_simps [simp]:
  "res_bind (Inl e) f = Inl e"
  "res_bind (Inr x) f = f x"
  by (simp_all add: res_bind_def)

lemma res_bind_eq_Inr:
  "res_bind r f = Inr y \<longleftrightarrow> (\<exists>x. r = Inr x \<and> f x = Inr y)"
  by (cases r) simp_all

lemma res_bind_eq_Inl:
  "res_bind r f = Inl e \<longleftrightarrow> r = Inl e \<or> (\<exists>x. r = Inr x \<and> f x = Inl e)"
  by (cases r) simp_all

section \<open>Generic facts on reals\<close>

text \<open>A square root is compared with a non-negative constant through its radicand.\<close>

lemma sqrt_less_const_iff:
  assumes "0 \<le> x" and "0 \<le> c"
  shows "sqrt x < c \<longleftrightarrow> x < c\<^sup>2"
proof -
  have "sqrt x < c \<longleftrightarrow> sqrt x < sqrt (c\<^sup>2)" using assms(2) by simp
  also have "\<dots> \<longleftrightarrow> x < c\<^sup>2" by (rule real_sqrt_less_iff)
  finally show ?thesis .
qed

end
