(* ===== verification/PyFloat.thy ===== *)
theory PyFloat
  imports Prelude
begin

text \<open>
  Python \<open>float\<close> values as \<open>src/acc.py\<close> computes with them. A float is a finite
  value \<open>Fin r\<close>, an infinity or NaN: JSON request bodies may carry \<open>NaN\<close>,
  \<open>Infinity\<close> and \<open>-Infinity\<close> (Python's \<open>json\<close> accepts them) and \<open>float('nan')\<close>
  parses strings such as \<open>"nan"\<close>, so the special values reach the scorers. Arithmetic
  follows IEEE 754 on the special values (\<open>inf - inf\<close> is NaN, \<open>0 * inf\<close> is NaN,
  every comparison with NaN is false) and is exact on finite values: binary rounding,
  overflow to infinity and the sign of zero are not modelled. \<open>py_max\<close> is the
  builtin \<open>max(a, b)\<close> (it keeps \<open>a\<close> unless \<open>b > a\<close>, so \<open>max(0.0, nan) = 0.0\<close>)
  and \<open>py_round\<close> is \<open>round(x, 2)\<close>, half to even on the exact value.
\<close>

datatype pyfloat = Fin real | PInf | NInf | NaN

section \<open>Arithmetic\<close>

fun fneg :: "pyfloat \<Rightarrow> pyfloat" where
  "fneg (Fin x) = Fin (- x)"
| "fneg PInf = NInf"
| "fneg NInf = PInf"
| "fneg NaN = NaN"

fun fadd :: "pyfloat \<Rightarrow> pyfloat \<Rightarrow> pyfloat" where
  "fadd (Fin x) (Fin y) = Fin (x + y)"
| "fadd NaN _ = NaN"
| "fadd _ NaN = NaN"
| "fadd PInf NInf = NaN"
| "fadd NInf PInf = NaN"
| "fadd PInf _ = PInf"
| "fadd _ PInf = PInf"
| "fadd NInf _ = NInf"
| "fadd _ NInf = NInf"

definition fsub :: "pyfloat \<Rightarrow> pyfloat \<Rightarrow> pyfloat" where
  "fsub a b = fadd a (fneg b)"

fun fmul :: "pyfloat \<Rightarrow> pyfloat \<Rightarrow> pyfloat" where
  "fmul (Fin x) (Fin y) = Fin (x * y)"
| "fmul NaN _ = NaN"
| "fmul _ NaN = NaN"
| "fmul (Fin x) PInf = (if x = 0 then NaN else if 0 < x then PInf else NInf)"
| "fmul (Fin x) NInf = (if x = 0 then NaN else if 0 < x then NInf else PInf)"
| "fmul PInf (Fin y) = (if y = 0 then NaN else if 0 < y then PInf else NInf)"
| "fmul NInf (Fin y) = (if y = 0 then NaN else if 0 < y then NInf else PInf)"
| "fmul PInf PInf = PInf"
| "fmul PInf NInf = NInf"
| "fmul NInf PInf = NInf"
| "fmul NInf NInf = PInf"

fun fabs :: "pyfloat \<Rightarrow> pyfloat" where
  "fabs (Fin x) = Fin \<bar>x\<bar>"
| "fabs PInf = PInf"
| "fabs NInf = PInf"
| "fabs NaN = NaN"

section \<open>Comparisons\<close>

fun flt :: "pyfloat \<Rightarrow> pyfloat \<Rightarrow> bool" where
  "flt (Fin x) (Fin y) = (x < y)"
| "flt NaN _ = False"
| "flt _ NaN = False"
| "flt NInf b = (b \<noteq> NInf)"
| "flt a PInf = (a \<noteq> PInf)"
| "flt _ NInf = False"
| "flt PInf _ = False"

fun feq :: "pyfloat \<Rightarrow> pyfloat \<Rightarrow> bool" where
  "feq (Fin x) (Fin y) = (x = y)"
| "feq PInf PInf = True"
| "feq NInf NInf = True"
| "feq _ _ = False"

definition fle :: "pyfloat \<Rightarrow> pyfloat \<Rightarrow> bool" where
  "fle a b = (flt a b \<or> feq a b)"

definition fgt :: "pyfloat \<Rightarrow> pyfloat \<Rightarrow> bool" where
  "fgt a b = flt b a"

definition fge :: "pyfloat \<Rightarrow> pyfloat \<Rightarrow> bool" where
  "fge a b = fle b a"

text \<open>The builtin \<open>max(a, b)\<close>: the first argument wins unless the second is greater.\<close>

definition py_max :: "pyfloat \<Rightarrow> pyfloat \<Rightarrow> pyfloat" where
  "py_max a b = (if fgt b a then b else a)"

section \<open>Rounding to two decimals\<close>

definition round_half_even :: "real \<Rightarrow> int" where
  "round_half_even x =
     (let f = \<lfloor>x\<rfloor>; d = x - of_int f
      in if d < 1/2 then f else if 1/2 < d then f + 1 else if even f then f else f + 1)"

definition round2 :: "real \<Rightarrow> real" where
  "round2 x = of_int (round_half_even (x * 100)) / 100"

text \<open>\<open>round(x, 2)\<close> on a float: infinities and NaN are returned unchanged.\<close>

fun py_round :: "pyfloat \<Rightarrow> pyfloat" where
  "py_round (Fin x) = Fin (round2 x)"
| "py_round v = v"

section \<open>Lemmas\<close>

lemma fsub_Fin [simp, score_simps]: "fsub (Fin x) (Fin y) = Fin (x - y)"
  by (simp add: fsub_def)

lemma fge_Fin [simp, score_simps]: "fge (Fin x) (Fin y) \<longleftrightarrow> y \<le> x"
  by (auto simp: fge_def fle_def)

lemma fgt_Fin [simp, score_simps]: "fgt (Fin x) (Fin y) \<longleftrightarrow> y < x"
  by (simp add: fgt_def)

lemma fle_Fin [simp, score_simps]: "fle (Fin x) (Fin y) \<longleftrightarrow> x \<le> y"
  by (auto simp: fle_def)

lemma fge_NaN [simp]: "\<not> fge NaN b" "\<not> fge a NaN"
  by (cases a; cases b; simp add: fge_def fle_def)+

lemma fge_PInf_Fin [simp]: "fge PInf (Fin y)"
  by (simp add: fge_def fle_def)

lemma py_max_Fin [simp, score_simps]: "py_max (Fin a) (Fin b) = Fin (max a b)"
  by (simp add: py_max_def max_def)

lemma fabs_cases: "fabs v = NaN \<or> fabs v = PInf \<or> (\<exists>r. fabs v = Fin r \<and> 0 \<le> r)"
  by (cases v) auto

lemma fabs_NaN_iff [simp]: "fabs v = NaN \<longleftrightarrow> v = NaN"
  by (cases v) auto

text \<open>\<open>max(0.0, v)\<close> is never negative, never NaN and never minus infinity.\<close>

lemma py_max_zero:
  "py_max (Fin 0) v =
     (case v of Fin r \<Rightarrow> Fin (max 0 r) | PInf \<Rightarrow> PInf | NInf \<Rightarrow> Fin 0 | NaN \<Rightarrow> Fin 0)"
  by (cases v) (auto simp: py_max_def fgt_def max_def)

lemma round_half_even_cases:
  "round_half_even x = \<lfloor>x\<rfloor> \<or> round_half_even x = \<lfloor>x\<rfloor> + 1"
  by (simp add: round_half_even_def Let_def)

lemma round_half_even_up:
  "round_half_even x = \<lfloor>x\<rfloor> + 1 \<Longrightarrow> 1/2 \<le> x - of_int \<lfloor>x\<rfloor>"
  unfolding round_half_even_def Let_def by (simp split: if_splits)

lemma round_half_even_down:
  "round_half_even x = \<lfloor>x\<rfloor> \<Longrightarrow> x - of_int \<lfloor>x\<rfloor> \<le> 1/2"
  unfolding round_half_even_def Let_def by (simp split: if_splits)

lemma round_half_even_floor_ceiling:
  "\<lfloor>x\<rfloor> \<le> round_half_even x \<and> round_half_even x \<le> \<lceil>x\<rceil>"
proof (cases "round_half_even x = \<lfloor>x\<rfloor>")
  case True
  then show ?thesis using floor_le_ceiling [of x] by simp
next
  case False
  then have up: "round_half_even x = \<lfloor>x\<rfloor> + 1"
    using round_half_even_cases by blast
  then have "of_int \<lfloor>x\<rfloor> < x" using round_half_even_up [OF up] by linarith
  then have "\<lfloor>x\<rfloor> + 1 \<le> \<lceil>x\<rceil>"
    by (simp add: le_ceiling_iff)
  with up show ?thesis by simp
qed

text \<open>Round to nearest: the result is within one half of the argument.\<close>

lemma round_half_even_nearest: "\<bar>of_int (round_half_even x) - x\<bar> \<le> 1/2"
proof (cases "round_half_even x = \<lfloor>x\<rfloor>")
  case True
  with round_half_even_down [OF True] show ?thesis by simp
next
  case False
  then have up: "round_half_even x = \<lfloor>x\<rfloor> + 1"
    using round_half_even_cases by blast
  have "x < of_int \<lfloor>x\<rfloor> + 1" by linarith
  with up round_half_even_up [OF up] show ?thesis by simp
qed

lemma round_half_even_of_int [simp]: "round_half_even (of_int n) = n"
  by (simp add: round_half_even_def)

lemma round_half_even_mono:
  assumes "x \<le> y"
  shows "round_half_even x \<le> round_half_even y"
proof (cases "\<lfloor>x\<rfloor> = \<lfloor>y\<rfloor>")
  case True
  then show ?thesis using assms
    by (auto simp: round_half_even_def Let_def)
next
  case False
  with assms have "\<lfloor>x\<rfloor> < \<lfloor>y\<rfloor>" by (meson floor_mono order.not_eq_order_implies_strict)
  then have "\<lfloor>x\<rfloor> + 1 \<le> \<lfloor>y\<rfloor>" by simp
  then show ?thesis
    using round_half_even_cases [of x] round_half_even_floor_ceiling [of y] by linarith
qed

lemma round2_mono: "x \<le> y \<Longrightarrow> round2 x \<le> round2 y"
  by (simp add: round2_def divide_right_mono round_half_even_mono)

lemma round2_of_int_cents [simp]: "round2 (of_int n / 100) = of_int n / 100"
proof -
  have "of_int n / 100 * 100 = (of_int n :: real)" by simp
  then show ?thesis by (simp add: round2_def)
qed

lemma round2_of_int [simp]: "round2 (of_int n) = of_int n"
proof -
  have "(of_int n :: real) * 100 = of_int (n * 100)" by simp
  then have "round_half_even (of_int n * 100) = n * 100"
    by (metis round_half_even_of_int)
  then show ?thesis by (simp add: round2_def)
qed

lemma round2_numeral [simp, score_simps]: "round2 (numeral n) = numeral n"
  using round2_of_int [of "numeral n"] by simp

lemma round2_zero [simp, score_simps]: "round2 0 = 0"
  using round2_of_int_cents [of 0] by simp

text \<open>Rounding keeps a value inside any interval whose ends are whole cents.\<close>

lemma round2_within:
  assumes "of_int a / 100 \<le> x" and "x \<le> of_int b / 100"
  shows "of_int a / 100 \<le> round2 x \<and> round2 x \<le> of_int b / 100"
  using round2_mono [OF assms(1)] round2_mono [OF assms(2)] by simp

lemma round2_bounds_0_100:
  assumes "0 \<le> x" and "x \<le> 100"
  shows "0 \<le> round2 x \<and> round2 x \<le> 100"
  using round2_within [of 0 x 10000] assms by simp

lemma round2_error: "\<bar>round2 x - x\<bar> \<le> 1/200"
proof -
  have "\<bar>of_int (round_half_even (x * 100)) - x * 100\<bar> \<le> 1/2"
    by (rule round_half_even_nearest)
  then have "\<bar>(of_int (round_half_even (x * 100)) - x * 100) / 100\<bar> \<le> 1/200"
    by simp
  then show ?thesis by (simp add: round2_def diff_divide_distrib)
qed

subsection \<open>Non-negative magnitudes\<close>

text \<open>
  Absolute differences and their positive multiples and sums are non-negative, plus
  infinity or NaN: never a negative value and never minus infinity.
\<close>

definition nonneg_mag :: "pyfloat \<Rightarrow> bool" where
  "nonneg_mag v = (v = NaN \<or> v = PInf \<or> (\<exists>r. v = Fin r \<and> 0 \<le> r))"

lemma nonneg_mag_fabs [intro]: "nonneg_mag (fabs v)"
  by (cases v) (auto simp: nonneg_mag_def)

lemma nonneg_mag_fmul [intro]: "nonneg_mag v \<Longrightarrow> 0 < c \<Longrightarrow> nonneg_mag (fmul v (Fin c))"
  by (auto simp: nonneg_mag_def)

lemma nonneg_mag_fadd [intro]: "nonneg_mag a \<Longrightarrow> nonneg_mag b \<Longrightarrow> nonneg_mag (fadd a b)"
  by (auto simp: nonneg_mag_def)

lemma fabs_fsub_commute: "fabs (fsub a b) = fabs (fsub b a)"
  by (cases a; cases b) (simp_all add: fsub_def)

text \<open>\<open>max(0.0, c - v)\<close> for a non-negative magnitude \<open>v\<close> and \<open>c \<ge> 0\<close> lies in \<open>[0, c]\<close>.\<close>

lemma py_max_zero_sub_mag:
  assumes "nonneg_mag v" and "0 \<le> c"
  shows "\<exists>r. py_max (Fin 0) (fsub (Fin c) v) = Fin r \<and> 0 \<le> r \<and> r \<le> c"
  using assms by (auto simp: nonneg_mag_def py_max_zero fsub_def)

text \<open>
  \<open>math.isfinite\<close>. A difference with a non-finite operand is infinite or NaN, and so
  is a positively weighted sum with such a term; \<open>max(0.0, c - v)\<close> of such a \<open>v\<close> is 0.
\<close>

fun py_isfinite :: "pyfloat \<Rightarrow> bool" where
  "py_isfinite (Fin r) = True"
| "py_isfinite _ = False"

lemma fabs_fsub_nonfinite:
  "\<not> (py_isfinite a \<and> py_isfinite b) \<Longrightarrow> fabs (fsub a b) \<in> {PInf, NaN}"
  by (cases a; cases b) (simp_all add: fsub_def)

lemma fmul_pos_nonfinite [intro]: "v \<in> {PInf, NaN} \<Longrightarrow> 0 < c \<Longrightarrow> fmul v (Fin c) \<in> {PInf, NaN}"
  by auto

lemma fadd_nonfinite_left [intro]: "a \<in> {PInf, NaN} \<Longrightarrow> nonneg_mag b \<Longrightarrow> fadd a b \<in> {PInf, NaN}"
  by (auto simp: nonneg_mag_def)

lemma fadd_nonfinite_right [intro]: "nonneg_mag a \<Longrightarrow> b \<in> {PInf, NaN} \<Longrightarrow> fadd a b \<in> {PInf, NaN}"
  by (cases a) (auto simp: nonneg_mag_def)

lemma py_max_zero_sub_nonfinite: "v \<in> {PInf, NaN} \<Longrightarrow> py_max (Fin 0) (fsub (Fin c) v) = Fin 0"
  by (auto simp: py_max_def fsub_def fgt_def)


end
