(* ===== verification/PyJson.thy ===== *)
theory PyJson
  imports PyFloat
begin

text \<open>
  The request bodies of \<open>src/acc.py\<close> as Python sees them after \<open>request.get_json()\<close>:
  JSON values (\<open>jval\<close>), where a number with a fraction or exponent (or \<open>NaN\<close>,
  \<open>Infinity\<close>) is a float and any other number an int, and an object is the list of
  its members in order (Python's decoder keeps the last of duplicate keys, which
  \<open>jget\<close> reproduces). On top of them: Python truthiness (\<open>if not username\<close>),
  \<open>dict.get\<close> with a default, and the \<open>float(...)\<close> constructor, with its string
  grammar (\<open>float(" 1_000.5e-3 ")\<close>, \<open>float("-inf")\<close>, \<open>float("nan")\<close>). Strings are
  byte strings: non-ASCII digits and spaces, and integers too large for a float
  (\<open>OverflowError\<close>), are not modelled. The printer \<open>str_of_int\<close> (Python's
  \<open>str(int)\<close>) and the lemmas on the number grammar prove the round trip C11:
  \<open>float()\<close> reads back every printed integer, with any surrounding whitespace.
\<close>

datatype jval =
    JNull
  | JBool bool
  | JInt int
  | JFloat pyfloat
  | JStr string
  | JArr "jval list"
  | JObj "(string \<times> jval) list"

section \<open>Truthiness and dictionary access\<close>

fun py_truthy :: "jval \<Rightarrow> bool" where
  "py_truthy JNull = False"
| "py_truthy (JBool b) = b"
| "py_truthy (JInt i) = (i \<noteq> 0)"
| "py_truthy (JFloat f) = (f \<noteq> Fin 0)"
| "py_truthy (JStr s) = (s \<noteq> [])"
| "py_truthy (JArr xs) = (xs \<noteq> [])"
| "py_truthy (JObj kvs) = (kvs \<noteq> [])"

text \<open>\<open>isinstance(v, dict)\<close>: the values that have a \<open>get\<close> method.\<close>

fun is_dict :: "jval \<Rightarrow> bool" where
  "is_dict (JObj kvs) = True"
| "is_dict _ = False"

text \<open>\<open>d.get(k, default)\<close>; on a value that is not a dict the method does not exist.\<close>

fun jget :: "jval \<Rightarrow> string \<Rightarrow> jval \<Rightarrow> jval res" where
  "jget (JObj kvs) k d = Inr (case map_of (rev kvs) k of Some v \<Rightarrow> v | None \<Rightarrow> d)"
| "jget _ k d = Inl AttributeError"

section \<open>The string grammar of \<open>float()\<close>\<close>

definition is_py_space :: "char \<Rightarrow> bool" where
  "is_py_space c = (of_char c \<in> {9, 10, 11, 12, 13, 28, 29, 30, 31, 32 :: nat})"

definition is_digit_char :: "char \<Rightarrow> bool" where
  "is_digit_char c = (48 \<le> (of_char c :: nat) \<and> (of_char c :: nat) \<le> 57)"

definition digit_val :: "char \<Rightarrow> nat" where
  "digit_val c = of_char c - 48"

definition lower_char :: "char \<Rightarrow> char" where
  "lower_char c = (if 65 \<le> (of_char c :: nat) \<and> (of_char c :: nat) \<le> 90
                   then char_of (of_char c + (32 :: nat)) else c)"

definition py_strip :: "string \<Rightarrow> string" where
  "py_strip s = rev (dropWhile is_py_space (rev (dropWhile is_py_space s)))"

text \<open>The digits after a first one: a digit, or an underscore followed by a digit.\<close>

fun scan_digits :: "nat list \<Rightarrow> string \<Rightarrow> nat list \<times> string" where
  "scan_digits acc [] = (acc, [])"
| "scan_digits acc (c # cs) =
     (if is_digit_char c then scan_digits (acc @ [digit_val c]) cs
      else if c = CHR ''_'' then
        (case cs of
           d # ds \<Rightarrow> if is_digit_char d then scan_digits (acc @ [digit_val d]) ds else (acc, c # cs)
         | [] \<Rightarrow> (acc, c # cs))
      else (acc, c # cs))"

definition digitpart :: "string \<Rightarrow> (nat list \<times> string) option" where
  "digitpart s = (case s of
      c # cs \<Rightarrow> if is_digit_char c then Some (scan_digits [digit_val c] cs) else None
    | [] \<Rightarrow> None)"

definition nat_of_digits :: "nat list \<Rightarrow> nat" where
  "nat_of_digits ds = foldl (\<lambda>n d. 10 * n + d) 0 ds"

text \<open>\<open>number ::= [digitpart] "." digitpart | digitpart ["."]\<close>: integer digits,
  fraction digits and the rest of the string.\<close>

definition parse_mantissa :: "string \<Rightarrow> (nat list \<times> nat list \<times> string) option" where
  "parse_mantissa s = (case digitpart s of
      Some (ip, r) \<Rightarrow>
        (case r of
           c # r' \<Rightarrow>
             if c = CHR ''.'' then
               (case digitpart r' of Some (fp, r'') \<Rightarrow> Some (ip, fp, r'') | None \<Rightarrow> Some (ip, [], r'))
             else Some (ip, [], r)
         | [] \<Rightarrow> Some (ip, [], []))
    | None \<Rightarrow>
        (case s of
           c # r' \<Rightarrow>
             if c = CHR ''.'' then
               (case digitpart r' of Some (fp, r'') \<Rightarrow> Some ([], fp, r'') | None \<Rightarrow> None)
             else None
         | [] \<Rightarrow> None))"

definition parse_sign :: "string \<Rightarrow> int \<times> string" where
  "parse_sign s = (case s of
      c # r \<Rightarrow> if c = CHR ''+'' then (1, r) else if c = CHR ''-'' then (-1, r) else (1, s)
    | [] \<Rightarrow> (1, s))"

text \<open>\<open>exponent ::= ("e" | "E") [sign] digitpart\<close>, which must end the string.\<close>

definition parse_exponent :: "string \<Rightarrow> int option" where
  "parse_exponent s = (case s of
      [] \<Rightarrow> Some 0
    | c # r \<Rightarrow>
        if c = CHR ''e'' \<or> c = CHR ''E'' then
          (case parse_sign r of
             (sg, r') \<Rightarrow>
               (case digitpart r' of
                  Some (ds, []) \<Rightarrow> Some (sg * int (nat_of_digits ds))
                | _ \<Rightarrow> None))
        else None)"

definition scale10 :: "nat \<Rightarrow> int \<Rightarrow> real" where
  "scale10 m k = (if 0 \<le> k then of_nat m * 10 ^ nat k else of_nat m / 10 ^ nat (- k))"

definition parse_float_str :: "string \<Rightarrow> pyfloat option" where
  "parse_float_str s =
     (let t = py_strip s; (sg, u) = parse_sign t; l = map lower_char u in
      if l = ''inf'' \<or> l = ''infinity'' then Some (if sg = 1 then PInf else NInf)
      else if l = ''nan'' then Some NaN
      else (case parse_mantissa u of
              None \<Rightarrow> None
            | Some (ip, fp, r) \<Rightarrow>
                (case parse_exponent r of
                   None \<Rightarrow> None
                 | Some e \<Rightarrow>
                     Some (Fin (of_int sg * scale10 (nat_of_digits (ip @ fp)) (e - int (length fp)))))))"

section \<open>\<open>float(v)\<close>\<close>

fun py_float :: "jval \<Rightarrow> pyfloat res" where
  "py_float JNull = Inl TypeError"
| "py_float (JBool b) = Inr (Fin (if b then 1 else 0))"
| "py_float (JInt i) = Inr (Fin (of_int i))"
| "py_float (JFloat f) = Inr f"
| "py_float (JStr s) = (case parse_float_str s of Some f \<Rightarrow> Inr f | None \<Rightarrow> Inl ValueError)"
| "py_float (JArr xs) = Inl TypeError"
| "py_float (JObj kvs) = Inl TypeError"

section \<open>Printing integers: Python's \<open>str(int)\<close>\<close>

text \<open>
  The decimal digits of a natural number, most significant first, and \<open>str(i)\<close> of a
  Python int: what a client that serialises a number as a string sends. The lemmas
  below show that \<open>float()\<close> reads every such string back as the number.
\<close>

fun digits_of_nat :: "nat \<Rightarrow> nat list" where
  "digits_of_nat n = (if n < 10 then [n] else digits_of_nat (n div 10) @ [n mod 10])"

definition digit_char :: "nat \<Rightarrow> char" where
  "digit_char d = char_of (48 + d)"

definition str_of_int :: "int \<Rightarrow> string" where
  "str_of_int i = (if i < 0 then ''-'' else []) @ map digit_char (digits_of_nat (nat \<bar>i\<bar>))"

declare digits_of_nat.simps [simp del]

section \<open>Lemmas on the number grammar\<close>

lemma digits_of_nat_less: "d \<in> set (digits_of_nat n) \<Longrightarrow> d < 10"
  by (induction n rule: digits_of_nat.induct) (subst (asm) digits_of_nat.simps, auto split: if_splits)

lemma digits_of_nat_ne [simp]: "digits_of_nat n \<noteq> []"
  by (subst digits_of_nat.simps) simp

lemma nat_of_digits_snoc: "nat_of_digits (ds @ [d]) = 10 * nat_of_digits ds + d"
  by (simp add: nat_of_digits_def)

lemma nat_of_digits_digits_of_nat [simp]: "nat_of_digits (digits_of_nat n) = n"
  by (induction n rule: digits_of_nat.induct)
     (subst digits_of_nat.simps, simp add: nat_of_digits_snoc nat_of_digits_def)

lemma digit_char_props [simp]:
  assumes "d < 10"
  shows "is_digit_char (digit_char d)" "digit_val (digit_char d) = d"
    "\<not> is_py_space (digit_char d)" "lower_char (digit_char d) = digit_char d"
  using assms by (simp_all add: digit_char_def is_digit_char_def digit_val_def is_py_space_def lower_char_def)

lemma scan_digits_digits:
  "\<forall>d\<in>set ds. d < 10 \<Longrightarrow> scan_digits acc (map digit_char ds) = (acc @ ds, [])"
  by (induction ds arbitrary: acc) simp_all

lemma digitpart_digits:
  assumes "\<forall>d\<in>set ds. d < 10" "ds \<noteq> []"
  shows "digitpart (map digit_char ds) = Some (ds, [])"
  using assms by (cases ds) (simp_all add: digitpart_def scan_digits_digits)

lemma parse_mantissa_digits:
  assumes "\<forall>d\<in>set ds. d < 10" "ds \<noteq> []"
  shows "parse_mantissa (map digit_char ds) = Some (ds, [], [])"
  using assms by (simp add: parse_mantissa_def digitpart_digits)

lemma parse_sign_digits:
  assumes "\<forall>d\<in>set ds. d < 10" "ds \<noteq> []"
  shows "parse_sign (map digit_char ds) = (1, map digit_char ds)"
    "parse_sign (CHR ''-'' # map digit_char ds) = (-1, map digit_char ds)"
proof -
  obtain d ds' where ds: "ds = d # ds'" using assms(2) by (cases ds) auto
  with assms(1) have "d < 10" by simp
  then have "(of_char (digit_char d) :: nat) = 48 + d" by (simp add: digit_char_def)
  then have "digit_char d \<noteq> CHR ''+''" "digit_char d \<noteq> CHR ''-''"
    by (auto dest: arg_cong [where f = "of_char :: char \<Rightarrow> nat"])
  then show "parse_sign (map digit_char ds) = (1, map digit_char ds)"
    by (simp add: parse_sign_def ds)
  show "parse_sign (CHR ''-'' # map digit_char ds) = (-1, map digit_char ds)"
    by (simp add: parse_sign_def)
qed

lemma digit_char_neq:
  assumes "d < 10" "(of_char c :: nat) < 48 \<or> 57 < (of_char c :: nat)"
  shows "digit_char d \<noteq> c"
proof
  assume "digit_char d = c"
  then have "(of_char c :: nat) = 48 + d" using assms(1) by (auto simp: digit_char_def)
  with assms show False by simp
qed

lemma digits_not_special:
  assumes "\<forall>d\<in>set ds. d < 10" "ds \<noteq> []"
  shows "map lower_char (map digit_char ds) \<noteq> ''inf''" "map lower_char (map digit_char ds) \<noteq> ''infinity''"
    "map lower_char (map digit_char ds) \<noteq> ''nan''"
proof -
  obtain d ds' where ds: "ds = d # ds'" using assms(2) by (cases ds) auto
  with assms(1) have d: "d < 10" by simp
  have "digit_char d \<noteq> CHR ''i''" "digit_char d \<noteq> CHR ''n''" using digit_char_neq [OF d] by simp_all
  then show "map lower_char (map digit_char ds) \<noteq> ''inf''" "map lower_char (map digit_char ds) \<noteq> ''infinity''"
    "map lower_char (map digit_char ds) \<noteq> ''nan''"
    using d by (simp_all add: ds)
qed

lemma dropWhile_hd_not: "s \<noteq> [] \<Longrightarrow> \<not> P (hd s) \<Longrightarrow> dropWhile P s = s"
  by (cases s) simp_all

text \<open>\<open>str.strip()\<close> removes exactly the whitespace around a word that starts and ends
  with a non-space.\<close>

lemma py_strip_padded:
  assumes "\<forall>c\<in>set pre. is_py_space c" "\<forall>c\<in>set suf. is_py_space c"
    and "s \<noteq> []" "\<not> is_py_space (hd s)" "\<not> is_py_space (last s)"
  shows "py_strip (pre @ s @ suf) = s"
proof -
  have "dropWhile is_py_space (pre @ s @ suf) = s @ suf"
    using assms(1,3,4) by (simp add: dropWhile_append2 dropWhile_hd_not)
  moreover have "dropWhile is_py_space (rev suf @ rev s) = dropWhile is_py_space (rev s)"
    using assms(2) by (intro dropWhile_append2) simp
  moreover have "dropWhile is_py_space (rev s) = rev s"
    using assms(3,5) by (intro dropWhile_hd_not) (simp_all add: hd_rev)
  ultimately show ?thesis by (simp add: py_strip_def)
qed

lemma str_of_int_ends:
  "str_of_int i \<noteq> []" "\<not> is_py_space (hd (str_of_int i))" "\<not> is_py_space (last (str_of_int i))"
proof -
  obtain d ds where ds: "digits_of_nat (nat \<bar>i\<bar>) = d # ds" by (cases "digits_of_nat (nat \<bar>i\<bar>)") auto
  have d: "d < 10" "last (d # ds) < 10" using digits_of_nat_less [of _ "nat \<bar>i\<bar>"] ds
    by (metis list.set_intros(1), metis last_in_set list.distinct(1))
  show "str_of_int i \<noteq> []" by (simp add: str_of_int_def)
  have "\<not> is_py_space (digit_char d)" by (rule digit_char_props(3) [OF d(1)])
  moreover have "\<not> is_py_space (CHR ''-'')" by (simp add: is_py_space_def)
  ultimately show "\<not> is_py_space (hd (str_of_int i))" by (simp add: str_of_int_def ds)
  have "last (str_of_int i) = digit_char (last (d # ds))"
    by (simp add: str_of_int_def ds last_map)
  then show "\<not> is_py_space (last (str_of_int i))" using digit_char_props(3) [OF d(2)] by simp
qed

lemma parse_float_str_of_int:
  assumes "\<forall>c\<in>set pre. is_py_space c" "\<forall>c\<in>set suf. is_py_space c"
  shows "parse_float_str (pre @ str_of_int i @ suf) = Some (Fin (of_int i))"
proof -
  define ds where "ds = digits_of_nat (nat \<bar>i\<bar>)"
  have ds: "\<forall>d\<in>set ds. d < 10" "ds \<noteq> []" by (auto simp: ds_def digits_of_nat_less)
  have strip: "py_strip (pre @ str_of_int i @ suf) = str_of_int i"
    using py_strip_padded [OF assms str_of_int_ends] .
  have low: "map (lower_char \<circ> digit_char) ds = map digit_char ds"
    using ds(1) by (induction ds) simp_all
  have m: "parse_mantissa (map digit_char ds) = Some (ds, [], [])" by (rule parse_mantissa_digits [OF ds])
  have val: "real (nat_of_digits ds) = \<bar>of_int i\<bar>" by (simp add: ds_def)
  show ?thesis
  proof (cases "i < 0")
    case True
    then have "str_of_int i = CHR ''-'' # map digit_char ds" by (simp add: str_of_int_def ds_def)
    with strip have "py_strip (pre @ str_of_int i @ suf) = CHR ''-'' # map digit_char ds" by (rule trans)
    then show ?thesis using True digits_not_special [OF ds] parse_sign_digits [OF ds] val
      by (simp add: parse_float_str_def low m parse_exponent_def scale10_def)
  next
    case False
    then have "str_of_int i = map digit_char ds" by (simp add: str_of_int_def ds_def)
    with strip have "py_strip (pre @ str_of_int i @ suf) = map digit_char ds" by (rule trans)
    then show ?thesis using False digits_not_special [OF ds] parse_sign_digits [OF ds] val
      by (simp add: parse_float_str_def low m parse_exponent_def scale10_def)
  qed
qed

section \<open>Properties\<close>



end
