(* ===== verification/Keystroke.thy ===== *)
theory Keystroke
  imports PyJson
begin

text \<open>
  The keystroke similarity scorer, \<open>keystroke_similarity(stored, current)\<close> of
  \<open>src/acc.py\<close> (lines 22--41). The body of its \<open>try\<close> is \<open>keystroke_try\<close>: four
  \<open>float(d.get(k, 0))\<close> conversions, the weighted absolute differences, the clamp
  \<open>max(0.0, 100.0 - w * 1.2)\<close> and \<open>round(score, 2)\<close>; \<open>keystroke_similarity\<close>
  catches every exception of that body and returns \<open>0.0\<close>. \<open>ks_score_spec\<close> is the
  formula of the spec (section 4.1) on real numbers; the lemmas show the code refines it
  on finite inputs, that the score is always in \<open>[0, 100]\<close> whatever the inputs
  (NaN, infinities, strings, non-dicts included), that it is symmetric, fails closed,
  decreases with the differences, and where it reaches 0.
\<close>

text \<open>\<open>float(d.get(k, 0))\<close>, as the scorer and the enrollment handler write it.\<close>

definition get_float :: "jval \<Rightarrow> string \<Rightarrow> pyfloat res" where
  "get_float d k = res_bind (jget d k (JInt 0)) py_float"

definition keystroke_try :: "jval \<Rightarrow> jval \<Rightarrow> pyfloat res" where
  "keystroke_try stored current =
     res_bind (get_float stored ''avgDwell'') (\<lambda>sd.
     res_bind (get_float stored ''avgFlight'') (\<lambda>sf.
     res_bind (get_float current ''avgDwell'') (\<lambda>cd.
     res_bind (get_float current ''avgFlight'') (\<lambda>cf.
       let dwell_diff = fabs (fsub sd cd);
           flight_diff = fabs (fsub sf cf);
           weighted_diff = fadd (fmul dwell_diff (Fin 0.75)) (fmul flight_diff (Fin 0.25));
           score = py_max (Fin 0) (fsub (Fin 100) (fmul weighted_diff (Fin 1.2)))
       in Inr (py_round score)))))"

definition keystroke_similarity :: "jval \<Rightarrow> jval \<Rightarrow> pyfloat" where
  "keystroke_similarity stored current =
     (case keystroke_try stored current of Inl e \<Rightarrow> Fin 0 | Inr score \<Rightarrow> score)"

section \<open>Abstract specification\<close>

definition ks_weighted :: "real \<Rightarrow> real \<Rightarrow> real \<Rightarrow> real \<Rightarrow> real" where
  "ks_weighted sd sf cd cf = 0.75 * \<bar>sd - cd\<bar> + 0.25 * \<bar>sf - cf\<bar>"

definition ks_score_spec :: "real \<Rightarrow> real \<Rightarrow> real \<Rightarrow> real \<Rightarrow> real" where
  "ks_score_spec sd sf cd cf = round2 (max 0 (100 - ks_weighted sd sf cd cf * 1.2))"

section \<open>Lemmas\<close>

lemma get_float_JObj [score_simps]:
  "get_float (JObj kvs) k =
     py_float (case map_of (rev kvs) k of Some v \<Rightarrow> v | None \<Rightarrow> JInt 0)"
  by (simp add: get_float_def)

lemma get_float_not_dict: "\<not> is_dict d \<Longrightarrow> get_float d k = Inl AttributeError"
  by (cases d) (simp_all add: get_float_def)

text \<open>Once the four conversions have succeeded, the score is the clamped formula.\<close>

lemma keystroke_try_floats:
  assumes "get_float stored ''avgDwell'' = Inr sd" "get_float stored ''avgFlight'' = Inr sf"
    and "get_float current ''avgDwell'' = Inr cd" "get_float current ''avgFlight'' = Inr cf"
  shows "keystroke_try stored current =
    Inr (py_round (py_max (Fin 0) (fsub (Fin 100)
      (fmul (fadd (fmul (fabs (fsub sd cd)) (Fin 0.75)) (fmul (fabs (fsub sf cf)) (Fin 0.25)))
            (Fin 1.2)))))"
  using assms by (simp add: keystroke_try_def Let_def)

lemma keystroke_try_Inr_cases:
  "keystroke_try stored current = Inr v \<Longrightarrow>
     \<exists>sd sf cd cf. get_float stored ''avgDwell'' = Inr sd \<and> get_float stored ''avgFlight'' = Inr sf
       \<and> get_float current ''avgDwell'' = Inr cd \<and> get_float current ''avgFlight'' = Inr cf
       \<and> v = py_round (py_max (Fin 0) (fsub (Fin 100)
      (fmul (fadd (fmul (fabs (fsub sd cd)) (Fin 0.75)) (fmul (fabs (fsub sf cf)) (Fin 0.25)))
            (Fin 1.2))))"
  by (auto simp: keystroke_try_def Let_def res_bind_eq_Inr)

lemma keystroke_try_in_range:
  assumes "keystroke_try stored current = Inr v"
  shows "\<exists>r. v = Fin r \<and> 0 \<le> r \<and> r \<le> 100"
proof -
  obtain sd sf cd cf where v: "v = py_round (py_max (Fin 0) (fsub (Fin 100)
      (fmul (fadd (fmul (fabs (fsub sd cd)) (Fin 0.75)) (fmul (fabs (fsub sf cf)) (Fin 0.25)))
            (Fin 1.2))))"
    using keystroke_try_Inr_cases [OF assms] by blast
  define w where "w = fmul (fadd (fmul (fabs (fsub sd cd)) (Fin 0.75))
                               (fmul (fabs (fsub sf cf)) (Fin 0.25))) (Fin 1.2)"
  have "nonneg_mag w"
    unfolding w_def by (intro nonneg_mag_fmul nonneg_mag_fadd nonneg_mag_fabs) simp_all
  from py_max_zero_sub_mag [OF this, of 100]
  obtain r where r: "py_max (Fin 0) (fsub (Fin 100) w) = Fin r" "0 \<le> r" "r \<le> 100"
    by auto
  from v r(1) have "v = Fin (round2 r)" by (simp add: w_def)
  with r(2,3) show ?thesis using round2_bounds_0_100 by auto
qed

text \<open>
  The clamp \<open>max(0.0, 100 - 1.2 w)\<close> reaches 0 at \<open>w = 250/3\<close>, and a value that is
  already 0 stays 0 after rounding.
\<close>

lemma ks_score_spec_clamped:
  assumes "250/3 \<le> ks_weighted sd sf cd cf"
  shows "ks_score_spec sd sf cd cf = 0"
proof -
  from assms have "100 - ks_weighted sd sf cd cf * 1.2 \<le> 0" by simp
  then have "max 0 (100 - ks_weighted sd sf cd cf * 1.2) = 0" by simp
  then show ?thesis by (simp add: ks_score_spec_def)
qed

text \<open>The scorer as a case distinction on its four conversions.\<close>

lemma keystroke_similarity_cases:
  "keystroke_similarity stored current =
     (case (get_float stored ''avgDwell'', get_float stored ''avgFlight'',
            get_float current ''avgDwell'', get_float current ''avgFlight'') of
        (Inr sd, Inr sf, Inr cd, Inr cf) \<Rightarrow>
          py_round (py_max (Fin 0) (fsub (Fin 100)
            (fmul (fadd (fmul (fabs (fsub sd cd)) (Fin 0.75)) (fmul (fabs (fsub sf cf)) (Fin 0.25)))
                  (Fin 1.2))))
      | _ \<Rightarrow> Fin 0)"
  by (simp add: keystroke_similarity_def keystroke_try_def Let_def split: sum.split)

lemma keystroke_similarity_Fin:
  assumes "get_float stored ''avgDwell'' = Inr (Fin sd)" "get_float stored ''avgFlight'' = Inr (Fin sf)"
    and "get_float current ''avgDwell'' = Inr (Fin cd)" "get_float current ''avgFlight'' = Inr (Fin cf)"
  shows "keystroke_similarity stored current = Fin (ks_score_spec sd sf cd cf)"
  using assms by (simp add: keystroke_similarity_cases ks_score_spec_def ks_weighted_def)

lemma ks_score_spec_self [simp]: "ks_score_spec d f d f = 100"
  by (simp add: ks_score_spec_def ks_weighted_def)

lemma ks_weighted_mono:
  "\<bar>sd - cd\<bar> \<le> \<bar>sd' - cd'\<bar> \<Longrightarrow> \<bar>sf - cf\<bar> \<le> \<bar>sf' - cf'\<bar> \<Longrightarrow>
   ks_weighted sd sf cd cf \<le> ks_weighted sd' sf' cd' cf'"
  by (simp add: ks_weighted_def)

lemma keystroke_similarity_bounds:
  "\<exists>r. keystroke_similarity stored current = Fin r \<and> 0 \<le> r \<and> r \<le> 100"
proof (cases "keystroke_try stored current")
  case (Inl e)
  then show ?thesis by (simp add: keystroke_similarity_def)
next
  case (Inr v)
  then show ?thesis using keystroke_try_in_range [OF Inr] by (simp add: keystroke_similarity_def)
qed

section \<open>Properties\<close>

text \<open>
  C1: whatever the stored and submitted values are (missing keys, strings, NaN,
  infinities, values that are not dicts), the keystroke score is a finite float between
  0 and 100.
\<close>

theorem keystroke_similarity_range:
  "\<exists>r. keystroke_similarity stored current = Fin r \<and> 0 \<le> r \<and> r \<le> 100"
  by (rule keystroke_similarity_bounds)

text \<open>
  C2: when the four conversions give finite floats, the body of the \<open>try\<close> raises
  nothing and returns the score of the spec's formula (section 4.1):
  \<open>round(max(0, 100 - 1.2 (0.75 |sd - cd| + 0.25 |sf - cf|)), 2)\<close>.
\<close>

theorem keystroke_try_refines:
  assumes "get_float stored ''avgDwell'' = Inr (Fin sd)" "get_float stored ''avgFlight'' = Inr (Fin sf)"
    and "get_float current ''avgDwell'' = Inr (Fin cd)" "get_float current ''avgFlight'' = Inr (Fin cf)"
  shows "keystroke_try stored current = Inr (Fin (ks_score_spec sd sf cd cf))"
  using keystroke_try_floats [OF assms] by (simp add: ks_score_spec_def ks_weighted_def)

theorem keystroke_try_refines_witness:
  "get_float (JObj [(''avgDwell'', JFloat (Fin 100)), (''avgFlight'', JFloat (Fin 50))]) ''avgDwell'' = Inr (Fin 100)
   \<and> get_float (JObj [(''avgDwell'', JFloat (Fin 100)), (''avgFlight'', JFloat (Fin 50))]) ''avgFlight'' = Inr (Fin 50)
   \<and> get_float (JObj [(''avgDwell'', JInt 110), (''avgFlight'', JStr ''40'')]) ''avgDwell'' = Inr (Fin 110)
   \<and> get_float (JObj [(''avgDwell'', JInt 110), (''avgFlight'', JStr ''40'')]) ''avgFlight'' = Inr (Fin 40)
   \<and> keystroke_try (JObj [(''avgDwell'', JFloat (Fin 100)), (''avgFlight'', JFloat (Fin 50))])
                     (JObj [(''avgDwell'', JInt 110), (''avgFlight'', JStr ''40'')]) = Inr (Fin 88)"
proof -
  have g: "get_float (JObj [(''avgDwell'', JFloat (Fin 100)), (''avgFlight'', JFloat (Fin 50))]) ''avgDwell'' = Inr (Fin 100)"
    "get_float (JObj [(''avgDwell'', JFloat (Fin 100)), (''avgFlight'', JFloat (Fin 50))]) ''avgFlight'' = Inr (Fin 50)"
    "get_float (JObj [(''avgDwell'', JInt 110), (''avgFlight'', JStr ''40'')]) ''avgDwell'' = Inr (Fin 110)"
    "get_float (JObj [(''avgDwell'', JInt 110), (''avgFlight'', JStr ''40'')]) ''avgFlight'' = Inr (Fin 40)"
    by (code_simp)+
  have "ks_score_spec 100 50 110 40 = 88"
    by (simp add: ks_score_spec_def ks_weighted_def)
  with g keystroke_try_refines [OF g] show ?thesis by simp
qed

text \<open>
  C3: a submission identical to the stored profile (both converting to the same finite
  floats, missing keys counting as 0) scores exactly 100 (spec section 8).
\<close>

theorem keystroke_similarity_self:
  assumes "get_float stored ''avgDwell'' = Inr (Fin d)" "get_float stored ''avgFlight'' = Inr (Fin f)"
    and "get_float current ''avgDwell'' = Inr (Fin d)" "get_float current ''avgFlight'' = Inr (Fin f)"
  shows "keystroke_similarity stored current = Fin 100"
  using keystroke_similarity_Fin [OF assms] by simp

theorem keystroke_similarity_self_witness:
  "get_float (JObj [(''avgDwell'', JFloat (Fin 100)), (''avgFlight'', JFloat (Fin 50))]) ''avgDwell'' = Inr (Fin 100)
   \<and> get_float (JObj [(''avgDwell'', JFloat (Fin 100)), (''avgFlight'', JFloat (Fin 50))]) ''avgFlight'' = Inr (Fin 50)
   \<and> get_float (JObj [(''avgDwell'', JInt 100), (''avgFlight'', JInt 50)]) ''avgDwell'' = Inr (Fin 100)
   \<and> get_float (JObj [(''avgDwell'', JInt 100), (''avgFlight'', JInt 50)]) ''avgFlight'' = Inr (Fin 50)
   \<and> keystroke_similarity (JObj [(''avgDwell'', JFloat (Fin 100)), (''avgFlight'', JFloat (Fin 50))])
                           (JObj [(''avgDwell'', JInt 100), (''avgFlight'', JInt 50)]) = Fin 100"
proof -
  have g: "get_float (JObj [(''avgDwell'', JFloat (Fin 100)), (''avgFlight'', JFloat (Fin 50))]) ''avgDwell'' = Inr (Fin 100)"
    "get_float (JObj [(''avgDwell'', JFloat (Fin 100)), (''avgFlight'', JFloat (Fin 50))]) ''avgFlight'' = Inr (Fin 50)"
    "get_float (JObj [(''avgDwell'', JInt 100), (''avgFlight'', JInt 50)]) ''avgDwell'' = Inr (Fin 100)"
    "get_float (JObj [(''avgDwell'', JInt 100), (''avgFlight'', JInt 50)]) ''avgFlight'' = Inr (Fin 50)"
    by (simp_all add: score_simps)
  with keystroke_similarity_self [OF g] show ?thesis by simp
qed

text \<open>
  C4: fail closed on non-finite timings: when the four conversions succeed but one of
  the values is NaN or an infinity (Python's JSON decoder accepts \<open>NaN\<close> and
  \<open>Infinity\<close>, \<open>float()\<close> parses \<open>"nan"\<close> and \<open>"inf"\<close>), the weighted difference is
  infinite or NaN, \<open>max(0.0, ...)\<close> keeps \<open>0.0\<close>, and the score is 0, even for a
  submission identical to the stored profile (where the spec of section 8 says 100).
\<close>

theorem keystroke_nonfinite_zero:
  assumes "get_float stored ''avgDwell'' = Inr sd" "get_float stored ''avgFlight'' = Inr sf"
    and "get_float current ''avgDwell'' = Inr cd" "get_float current ''avgFlight'' = Inr cf"
    and "\<not> (py_isfinite sd \<and> py_isfinite sf \<and> py_isfinite cd \<and> py_isfinite cf)"
  shows "keystroke_similarity stored current = Fin 0"
proof -
  have "fadd (fmul (fabs (fsub sd cd)) (Fin 0.75)) (fmul (fabs (fsub sf cf)) (Fin 0.25)) \<in> {PInf, NaN}"
  proof (cases "py_isfinite sd \<and> py_isfinite cd")
    case True
    with assms(5) have "fabs (fsub sf cf) \<in> {PInf, NaN}" by (intro fabs_fsub_nonfinite) auto
    then show ?thesis by (intro fadd_nonfinite_right nonneg_mag_fmul nonneg_mag_fabs fmul_pos_nonfinite) simp_all
  next
    case False
    then have "fabs (fsub sd cd) \<in> {PInf, NaN}" by (rule fabs_fsub_nonfinite)
    then show ?thesis by (intro fadd_nonfinite_left nonneg_mag_fmul nonneg_mag_fabs fmul_pos_nonfinite) simp_all
  qed
  then have "fmul (fadd (fmul (fabs (fsub sd cd)) (Fin 0.75)) (fmul (fabs (fsub sf cf)) (Fin 0.25))) (Fin 1.2)
               \<in> {PInf, NaN}" by (rule fmul_pos_nonfinite) simp
  from py_max_zero_sub_nonfinite [OF this, of 100] show ?thesis
    using keystroke_try_floats [OF assms(1-4)] by (simp add: keystroke_similarity_def)
qed

theorem keystroke_nonfinite_zero_witness:
  "get_float (JObj [(''avgDwell'', JFloat NaN), (''avgFlight'', JFloat (Fin 50))]) ''avgDwell'' = Inr NaN
   \<and> get_float (JObj [(''avgDwell'', JFloat NaN), (''avgFlight'', JFloat (Fin 50))]) ''avgFlight'' = Inr (Fin 50)
   \<and> py_isfinite NaN = False
   \<and> keystroke_similarity (JObj [(''avgDwell'', JFloat NaN), (''avgFlight'', JFloat (Fin 50))])
                          (JObj [(''avgDwell'', JFloat NaN), (''avgFlight'', JFloat (Fin 50))]) = Fin 0"
proof -
  have h: "get_float (JObj [(''avgDwell'', JFloat NaN), (''avgFlight'', JFloat (Fin 50))]) ''avgDwell'' = Inr NaN"
    "get_float (JObj [(''avgDwell'', JFloat NaN), (''avgFlight'', JFloat (Fin 50))]) ''avgFlight'' = Inr (Fin 50)"
    "\<not> (py_isfinite NaN \<and> py_isfinite (Fin 50) \<and> py_isfinite NaN \<and> py_isfinite (Fin 50))"
    by (simp_all add: get_float_JObj)
  show ?thesis using h keystroke_nonfinite_zero [OF h(1,2) h(1,2) h(3)] by simp
qed

text \<open>
  C5: fail closed: if any of the four \<open>float(...get(...))\<close> conversions raises (a value
  that is not a dict, a non-numeric string, \<open>null\<close>, a list), the score is \<open>0.0\<close>
  and no exception escapes.
\<close>

theorem keystroke_fail_closed:
  assumes "get_float stored ''avgDwell'' = Inl e \<or> get_float stored ''avgFlight'' = Inl e
         \<or> get_float current ''avgDwell'' = Inl e \<or> get_float current ''avgFlight'' = Inl e"
  shows "keystroke_similarity stored current = Fin 0"
  using assms by (auto simp: keystroke_similarity_cases split: sum.split)

theorem keystroke_fail_closed_witness:
  "(get_float (JObj [(''avgDwell'', JFloat (Fin 100)), (''avgFlight'', JFloat (Fin 50))]) ''avgDwell'' = Inl ValueError
    \<or> get_float (JObj [(''avgDwell'', JFloat (Fin 100)), (''avgFlight'', JFloat (Fin 50))]) ''avgFlight'' = Inl ValueError
    \<or> get_float (JObj [(''avgDwell'', JStr ''fast'')]) ''avgDwell'' = Inl ValueError
    \<or> get_float (JObj [(''avgDwell'', JStr ''fast'')]) ''avgFlight'' = Inl ValueError)
   \<and> keystroke_similarity (JObj [(''avgDwell'', JFloat (Fin 100)), (''avgFlight'', JFloat (Fin 50))])
                           (JObj [(''avgDwell'', JStr ''fast'')]) = Fin 0"
proof -
  have g: "get_float (JObj [(''avgDwell'', JStr ''fast'')]) ''avgDwell'' = Inl ValueError"
    by code_simp
  then show ?thesis
    using keystroke_fail_closed [of "JObj [(''avgDwell'', JFloat (Fin 100)), (''avgFlight'', JFloat (Fin 50))]"
        ValueError "JObj [(''avgDwell'', JStr ''fast'')]"] by simp
qed

text \<open>
  C6: the score is symmetric in its two arguments, for every pair of values (the
  conversions fail or succeed together, and \<open>abs(a - b) = abs(b - a)\<close> on floats, NaN
  and infinities included).
\<close>

theorem keystroke_similarity_symmetric:
  "keystroke_similarity stored current = keystroke_similarity current stored"
  by (cases "get_float stored ''avgDwell''"; cases "get_float stored ''avgFlight''";
      cases "get_float current ''avgDwell''"; cases "get_float current ''avgFlight''")
     (simp_all add: keystroke_similarity_cases fabs_fsub_commute)

text \<open>
  C7: the score never increases when the submission moves further from the stored
  profile: larger dwell and flight deviations give a score that is at most the same.
\<close>

theorem keystroke_antitone:
  assumes "get_float stored ''avgDwell'' = Inr (Fin sd)" "get_float stored ''avgFlight'' = Inr (Fin sf)"
    and "get_float near ''avgDwell'' = Inr (Fin d1)" "get_float near ''avgFlight'' = Inr (Fin f1)"
    and "get_float far ''avgDwell'' = Inr (Fin d2)" "get_float far ''avgFlight'' = Inr (Fin f2)"
    and "\<bar>sd - d1\<bar> \<le> \<bar>sd - d2\<bar>" "\<bar>sf - f1\<bar> \<le> \<bar>sf - f2\<bar>"
  shows "fle (keystroke_similarity stored far) (keystroke_similarity stored near)"
proof -
  have "ks_weighted sd sf d1 f1 \<le> ks_weighted sd sf d2 f2"
    using assms(7,8) by (rule ks_weighted_mono)
  then have "ks_score_spec sd sf d2 f2 \<le> ks_score_spec sd sf d1 f1"
    unfolding ks_score_spec_def by (intro round2_mono) simp
  then show ?thesis
    using keystroke_similarity_Fin [OF assms(1,2,3,4)] keystroke_similarity_Fin [OF assms(1,2,5,6)]
    by simp
qed

theorem keystroke_antitone_witness:
  "get_float (JObj [(''avgDwell'', JFloat (Fin 100)), (''avgFlight'', JFloat (Fin 50))]) ''avgDwell'' = Inr (Fin 100)
   \<and> get_float (JObj [(''avgDwell'', JFloat (Fin 100)), (''avgFlight'', JFloat (Fin 50))]) ''avgFlight'' = Inr (Fin 50)
   \<and> get_float (JObj [(''avgDwell'', JInt 105), (''avgFlight'', JInt 50)]) ''avgDwell'' = Inr (Fin 105)
   \<and> get_float (JObj [(''avgDwell'', JInt 105), (''avgFlight'', JInt 50)]) ''avgFlight'' = Inr (Fin 50)
   \<and> get_float (JObj [(''avgDwell'', JInt 80), (''avgFlight'', JInt 60)]) ''avgDwell'' = Inr (Fin 80)
   \<and> get_float (JObj [(''avgDwell'', JInt 80), (''avgFlight'', JInt 60)]) ''avgFlight'' = Inr (Fin 60)
   \<and> \<bar>(100::real) - 105\<bar> \<le> \<bar>100 - 80\<bar> \<and> \<bar>(50::real) - 50\<bar> \<le> \<bar>50 - 60\<bar>
   \<and> fle (keystroke_similarity (JObj [(''avgDwell'', JFloat (Fin 100)), (''avgFlight'', JFloat (Fin 50))])
                                (JObj [(''avgDwell'', JInt 80), (''avgFlight'', JInt 60)]))
           (keystroke_similarity (JObj [(''avgDwell'', JFloat (Fin 100)), (''avgFlight'', JFloat (Fin 50))])
                                (JObj [(''avgDwell'', JInt 105), (''avgFlight'', JInt 50)]))"
proof -
  have g: "get_float (JObj [(''avgDwell'', JFloat (Fin 100)), (''avgFlight'', JFloat (Fin 50))]) ''avgDwell'' = Inr (Fin 100)"
    "get_float (JObj [(''avgDwell'', JFloat (Fin 100)), (''avgFlight'', JFloat (Fin 50))]) ''avgFlight'' = Inr (Fin 50)"
    "get_float (JObj [(''avgDwell'', JInt 105), (''avgFlight'', JInt 50)]) ''avgDwell'' = Inr (Fin 105)"
    "get_float (JObj [(''avgDwell'', JInt 105), (''avgFlight'', JInt 50)]) ''avgFlight'' = Inr (Fin 50)"
    "get_float (JObj [(''avgDwell'', JInt 80), (''avgFlight'', JInt 60)]) ''avgDwell'' = Inr (Fin 80)"
    "get_float (JObj [(''avgDwell'', JInt 80), (''avgFlight'', JInt 60)]) ''avgFlight'' = Inr (Fin 60)"
    by (simp_all add: score_simps)
  have d: "\<bar>(100::real) - 105\<bar> \<le> \<bar>100 - 80\<bar>" "\<bar>(50::real) - 50\<bar> \<le> \<bar>50 - 60\<bar>"
    by simp_all
  show ?thesis using g d keystroke_antitone [OF g d] by simp
qed

text \<open>
  C8: the score is already 0 once the weighted difference reaches \<open>250/3 \<approx> 83.33\<close>;
  the comment at line 35 of \<open>src/acc.py\<close> ("0 when weighted_diff >= 120") is wrong.
\<close>

theorem keystroke_zero_threshold:
  assumes "get_float stored ''avgDwell'' = Inr (Fin sd)" "get_float stored ''avgFlight'' = Inr (Fin sf)"
    and "get_float current ''avgDwell'' = Inr (Fin cd)" "get_float current ''avgFlight'' = Inr (Fin cf)"
    and "250/3 \<le> 0.75 * \<bar>sd - cd\<bar> + 0.25 * \<bar>sf - cf\<bar>"
  shows "keystroke_similarity stored current = Fin 0"
  using keystroke_similarity_Fin [OF assms(1-4)] ks_score_spec_clamped [of sd sf cd cf] assms(5)
  by (simp add: ks_weighted_def)

theorem keystroke_zero_threshold_witness:
  "get_float (JObj [(''avgDwell'', JFloat (Fin 100)), (''avgFlight'', JFloat (Fin 50))]) ''avgDwell'' = Inr (Fin 100)
   \<and> get_float (JObj [(''avgDwell'', JFloat (Fin 100)), (''avgFlight'', JFloat (Fin 50))]) ''avgFlight'' = Inr (Fin 50)
   \<and> get_float (JObj [(''avgDwell'', JInt 0), (''avgFlight'', JInt 0)]) ''avgDwell'' = Inr (Fin 0)
   \<and> get_float (JObj [(''avgDwell'', JInt 0), (''avgFlight'', JInt 0)]) ''avgFlight'' = Inr (Fin 0)
   \<and> (250/3::real) \<le> 0.75 * \<bar>100 - 0\<bar> + 0.25 * \<bar>50 - 0\<bar>
   \<and> 0.75 * \<bar>100 - 0\<bar> + 0.25 * \<bar>50 - 0\<bar> < (120::real)
   \<and> keystroke_similarity (JObj [(''avgDwell'', JFloat (Fin 100)), (''avgFlight'', JFloat (Fin 50))])
                           (JObj [(''avgDwell'', JInt 0), (''avgFlight'', JInt 0)]) = Fin 0"
proof -
  have g: "get_float (JObj [(''avgDwell'', JFloat (Fin 100)), (''avgFlight'', JFloat (Fin 50))]) ''avgDwell'' = Inr (Fin 100)"
    "get_float (JObj [(''avgDwell'', JFloat (Fin 100)), (''avgFlight'', JFloat (Fin 50))]) ''avgFlight'' = Inr (Fin 50)"
    "get_float (JObj [(''avgDwell'', JInt 0), (''avgFlight'', JInt 0)]) ''avgDwell'' = Inr (Fin 0)"
    "get_float (JObj [(''avgDwell'', JInt 0), (''avgFlight'', JInt 0)]) ''avgFlight'' = Inr (Fin 0)"
    by (simp_all add: score_simps)
  have w: "(250/3::real) \<le> 0.75 * \<bar>100 - 0\<bar> + 0.25 * \<bar>50 - 0\<bar>" by simp
  show ?thesis using g w keystroke_zero_threshold [OF g w] by simp
qed

end
