(* ===== verification/Face.thy ===== *)
theory Face
  imports PyJson
begin

text \<open>
  The face score resolver \<open>face_score_from_value(val)\<close> of \<open>src/acc.py\<close>
  (lines 44--51): \<open>None\<close> gives the low-confidence default \<open>40.0\<close>, anything else is
  passed to \<open>float()\<close>, and a bare \<open>except\<close> maps every failure to \<open>40.0\<close>. The value
  comes straight from the request (\<open>face_score\<close>), and the code does not check that it
  lies in \<open>[0, 100]\<close>.
\<close>

fun face_score_from_value :: "jval \<Rightarrow> pyfloat" where
  "face_score_from_value JNull = Fin 40"
| "face_score_from_value v = (case py_float v of Inr f \<Rightarrow> f | Inl e \<Rightarrow> Fin 40)"

section \<open>Lemmas\<close>

text \<open>The \<open>None\<close> test is subsumed by the \<open>except\<close>: \<open>float(None)\<close> raises too.\<close>

lemma face_score_from_value_eq:
  "face_score_from_value v = (case py_float v of Inr f \<Rightarrow> f | Inl e \<Rightarrow> Fin 40)"
  by (cases v) simp_all

section \<open>Properties\<close>

text \<open>
  C9: an override that \<open>float()\<close> accepts (a number, a numeric string, a boolean) is
  returned unchanged as the face score: there is no range check, so 1000, -50 or
  infinity (\<open>"inf"\<close>) are used as they are, although the spec (section 4.3) says the
  override lies in \<open>[0, 100]\<close>.
\<close>

theorem face_override_used:
  assumes "py_float v = Inr f"
  shows "face_score_from_value v = f"
  using assms by (simp add: face_score_from_value_eq)

theorem face_override_used_witness:
  "py_float (JStr ''85.5'') = Inr (Fin 85.5) \<and> face_score_from_value (JStr ''85.5'') = Fin 85.5"
proof -
  have h: "py_float (JStr ''85.5'') = Inr (Fin 85.5)" by code_simp
  show ?thesis using h face_override_used [OF h] by simp
qed

text \<open>
  C10: without a usable override (\<open>None\<close>, a list, a dict, a non-numeric string) the
  face score is exactly the default \<open>40.0\<close>.
\<close>

theorem face_default_40:
  assumes "py_float v = Inl e"
  shows "face_score_from_value v = Fin 40"
  using assms by (simp add: face_score_from_value_eq)

theorem face_default_40_witness:
  "py_float JNull = Inl TypeError \<and> face_score_from_value JNull = Fin 40
   \<and> py_float (JStr ''high'') = Inl ValueError \<and> face_score_from_value (JStr ''high'') = Fin 40"
proof -
  have h1: "py_float JNull = Inl TypeError" by simp
  have h2: "py_float (JStr ''high'') = Inl ValueError" by code_simp
  show ?thesis using h1 h2 face_default_40 [OF h1] face_default_40 [OF h2] by simp
qed

end
