(* ===== verification/Geo.thy ===== *)
theory Geo
  imports PyJson
begin

text \<open>
  The geo match scorer, inline in \<open>verify()\<close> of \<open>src/acc.py\<close> (lines 159--168):
  \<^verbatim>\<open>
  lat = geo.get('lat', 0); lon = geo.get('lon', 0)
  dist = math.sqrt((user['latitude'] - lat)*2 + (user['longitude'] - lon)*2)
  geoscore = 100 if dist < 0.01 else 60 if dist < 0.03 else 0
  \<close>
  The submitted coordinates are not converted with \<open>float()\<close>: a string raises
  \<open>TypeError\<close> in the subtraction (\<open>py_num_sub\<close>). The formula multiplies the
  deltas by 2 where a distance would square them, so the radicand
  \<open>2 (dlat + dlon)\<close> is negative whenever the submission lies north-east of the stored
  point on balance, and \<open>math.sqrt\<close> then raises \<open>ValueError\<close> (\<open>py_sqrt\<close>).
  \<open>geo_score_radicand\<close> is the executable form that compares the radicand with the
  squared thresholds; the lemmas prove it equal to the model with the square root.
\<close>

text \<open>The numeric value of an int, bool or float operand of an arithmetic operator.\<close>

fun num_val :: "jval \<Rightarrow> pyfloat option" where
  "num_val (JBool b) = Some (Fin (if b then 1 else 0))"
| "num_val (JInt i) = Some (Fin (of_int i))"
| "num_val (JFloat f) = Some f"
| "num_val _ = None"

text \<open>\<open>x - v\<close> for a float \<open>x\<close> and a request value \<open>v\<close>.\<close>

definition py_num_sub :: "pyfloat \<Rightarrow> jval \<Rightarrow> pyfloat res" where
  "py_num_sub x v = (case num_val v of Some y \<Rightarrow> Inr (fsub x y) | None \<Rightarrow> Inl TypeError)"

text \<open>\<open>math.sqrt\<close>: a negative argument or minus infinity raises \<open>ValueError\<close>.\<close>

fun py_sqrt :: "pyfloat \<Rightarrow> pyfloat res" where
  "py_sqrt (Fin x) = (if x < 0 then Inl ValueError else Inr (Fin (sqrt x)))"
| "py_sqrt PInf = Inr PInf"
| "py_sqrt NInf = Inl ValueError"
| "py_sqrt NaN = Inr NaN"

definition geo_dist :: "real \<Rightarrow> real \<Rightarrow> jval \<Rightarrow> pyfloat res" where
  "geo_dist slat slon geo =
     res_bind (jget geo ''lat'' (JInt 0)) (\<lambda>lat.
     res_bind (jget geo ''lon'' (JInt 0)) (\<lambda>lon.
     res_bind (py_num_sub (Fin slat) lat) (\<lambda>dlat.
     res_bind (py_num_sub (Fin slon) lon) (\<lambda>dlon.
       py_sqrt (fadd (fmul dlat (Fin 2)) (fmul dlon (Fin 2)))))))"

definition geo_bucket :: "pyfloat \<Rightarrow> nat" where
  "geo_bucket dv = (if flt dv (Fin 0.01) then 100 else if flt dv (Fin 0.03) then 60 else 0)"

definition geo_score :: "real \<Rightarrow> real \<Rightarrow> jval \<Rightarrow> nat res" where
  "geo_score slat slon geo = res_bind (geo_dist slat slon geo) (\<lambda>dv. Inr (geo_bucket dv))"

section \<open>The executable form\<close>

definition geo_bucket_radicand :: "real \<Rightarrow> nat res" where
  "geo_bucket_radicand r =
     (if r < 0 then Inl ValueError else if r < 1/10000 then Inr 100 else if r < 9/10000 then Inr 60 else Inr 0)"

lemma flt_sqrt_Fin:
  assumes "0 \<le> x" and "0 \<le> c"
  shows "flt (Fin (sqrt x)) (Fin c) \<longleftrightarrow> x < c\<^sup>2"
  using sqrt_less_const_iff [OF assms] by simp

lemma geo_bucket_sqrt [score_simps]:
  "res_bind (py_sqrt (Fin r)) (\<lambda>dv. Inr (geo_bucket dv)) = geo_bucket_radicand r"
proof (cases "r < 0")
  case True
  then show ?thesis by (simp add: geo_bucket_radicand_def)
next
  case False
  then have r: "0 \<le> r" by simp
  have a: "flt (Fin (sqrt r)) (Fin (1/100)) \<longleftrightarrow> r < 1/10000"
    using flt_sqrt_Fin [OF r, of "1/100"] by (simp add: power2_eq_square)
  have b: "flt (Fin (sqrt r)) (Fin (3/100)) \<longleftrightarrow> r < 9/10000"
    using flt_sqrt_Fin [OF r, of "3/100"] by (simp add: power2_eq_square)
  show ?thesis using False
    by (simp add: geo_bucket_def geo_bucket_radicand_def a b del: flt.simps)
qed

text \<open>With numeric coordinates the score is the bucket of the radicand \<open>2 dlat + 2 dlon\<close>.\<close>

lemma geo_score_numeric:
  assumes "jget geo ''lat'' (JInt 0) = Inr vlat" "num_val vlat = Some (Fin lat)"
    and "jget geo ''lon'' (JInt 0) = Inr vlon" "num_val vlon = Some (Fin lon)"
  shows "geo_score slat slon geo = geo_bucket_radicand ((slat - lat) * 2 + (slon - lon) * 2)"
  using assms geo_bucket_sqrt [of "(slat - lat) * 2 + (slon - lon) * 2"]
  by (simp add: geo_score_def geo_dist_def py_num_sub_def)

text \<open>
  The whole scorer without the square root, registered as its code equation so that
  \<open>geo_score\<close> evaluates by \<open>code_simp\<close>.
\<close>

definition geo_bucket_float :: "pyfloat \<Rightarrow> nat res" where
  "geo_bucket_float v = (case v of
      Fin r \<Rightarrow> geo_bucket_radicand r | PInf \<Rightarrow> Inr 0 | NInf \<Rightarrow> Inl ValueError | NaN \<Rightarrow> Inr 0)"

lemma geo_bucket_float_eq: "res_bind (py_sqrt v) (\<lambda>dv. Inr (geo_bucket dv)) = geo_bucket_float v"
  by (cases v) (simp_all add: geo_bucket_float_def geo_bucket_sqrt del: py_sqrt.simps,
                simp_all add: geo_bucket_def)

lemma geo_score_code [code]:
  "geo_score slat slon geo =
     res_bind (jget geo ''lat'' (JInt 0)) (\<lambda>lat.
     res_bind (jget geo ''lon'' (JInt 0)) (\<lambda>lon.
     res_bind (py_num_sub (Fin slat) lat) (\<lambda>dlat.
     res_bind (py_num_sub (Fin slon) lon) (\<lambda>dlon.
       geo_bucket_float (fadd (fmul dlat (Fin 2)) (fmul dlon (Fin 2)))))))"
  unfolding geo_score_def geo_dist_def
  by (simp add: res_bind_def geo_bucket_float_eq [symmetric] split: sum.split)

lemma num_val_py_float: "num_val v = Some x \<Longrightarrow> py_float v = Inr x"
  by (cases v) auto

lemma geo_bucket_radicand_values:
  "geo_bucket_radicand r = Inr s \<Longrightarrow> s = 0 \<or> s = 60 \<or> s = 100"
  by (simp add: geo_bucket_radicand_def split: if_splits)

lemma geo_bucket_values: "geo_bucket d = 0 \<or> geo_bucket d = 60 \<or> geo_bucket d = 100"
  by (simp add: geo_bucket_def)

text \<open>The buckets of the radicand are those of its square root, the code's \<open>dist\<close>.\<close>

lemma geo_bucket_radicand_sqrt:
  "geo_bucket_radicand r =
     (if r < 0 then Inl ValueError
      else if sqrt r < 0.01 then Inr 100 else if sqrt r < 0.03 then Inr 60 else Inr 0)"
proof (cases "r < 0")
  case True
  then show ?thesis by (simp add: geo_bucket_radicand_def)
next
  case False
  then have r: "0 \<le> r" by simp
  have a: "sqrt r < 0.01 \<longleftrightarrow> r < 1/10000"
    using sqrt_less_const_iff [OF r, of "1/100"] by (simp add: power2_eq_square)
  have b: "sqrt r < 0.03 \<longleftrightarrow> r < 9/10000"
    using sqrt_less_const_iff [OF r, of "3/100"] by (simp add: power2_eq_square)
  show ?thesis using False by (simp only: geo_bucket_radicand_def a b if_False)
qed

section \<open>Properties\<close>

text \<open>
  C17: with numeric coordinates the geo score is exactly the three-bucket step function
  of the spec (section 4.2) applied to the code's \<open>dist\<close>, decided on the radicand
  \<open>r = (lat0 - lat)*2 + (lon0 - lon)*2\<close>: \<open>ValueError\<close> below 0, 100 while
  \<open>dist < 0.01\<close> (\<open>r < 10^-4\<close>), 60 while \<open>dist < 0.03\<close> (\<open>r < 9 * 10^-4\<close>), else 0.
  So \<open>dist = 0.01\<close> scores 60 and \<open>dist = 0.03\<close> scores 0 (the left side of each
  threshold wins its lower bucket).
\<close>

theorem geo_score_step_function:
  assumes "jget geo ''lat'' (JInt 0) = Inr vlat" "num_val vlat = Some (Fin lat)"
    and "jget geo ''lon'' (JInt 0) = Inr vlon" "num_val vlon = Some (Fin lon)"
  shows "geo_score slat slon geo =
           (let r = (slat - lat) * 2 + (slon - lon) * 2 in
            if r < 0 then Inl ValueError
            else if sqrt r < 0.01 then Inr 100 else if sqrt r < 0.03 then Inr 60 else Inr 0)"
proof -
  define r where "r = (slat - lat) * 2 + (slon - lon) * 2"
  have "geo_score slat slon geo = geo_bucket_radicand r"
    using geo_score_numeric [OF assms] by (simp only: r_def)
  then show ?thesis by (simp only: Let_def r_def [symmetric] geo_bucket_radicand_sqrt)
qed

theorem geo_score_step_function_witness:
  "jget (JObj [(''lat'', JFloat (Fin 9.99)), (''lon'', JInt 20)]) ''lat'' (JInt 0) = Inr (JFloat (Fin 9.99))
   \<and> num_val (JFloat (Fin 9.99)) = Some (Fin 9.99)
   \<and> jget (JObj [(''lat'', JFloat (Fin 9.99)), (''lon'', JInt 20)]) ''lon'' (JInt 0) = Inr (JInt 20)
   \<and> num_val (JInt 20) = Some (Fin 20)
   \<and> geo_score 10 20 (JObj [(''lat'', JFloat (Fin 9.99)), (''lon'', JInt 20)]) =
       (let r = ((10::real) - 9.99) * 2 + (20 - 20) * 2 in
        if r < 0 then Inl ValueError
        else if sqrt r < 0.01 then Inr 100 else if sqrt r < 0.03 then Inr 60 else Inr 0)"
proof -
  have h: "jget (JObj [(''lat'', JFloat (Fin 9.99)), (''lon'', JInt 20)]) ''lat'' (JInt 0) = Inr (JFloat (Fin 9.99))"
    "num_val (JFloat (Fin 9.99)) = Some (Fin 9.99)"
    "jget (JObj [(''lat'', JFloat (Fin 9.99)), (''lon'', JInt 20)]) ''lon'' (JInt 0) = Inr (JInt 20)"
    "num_val (JInt 20) = Some (Fin 20)"
    by simp_all
  show ?thesis using h geo_score_step_function [OF h] by (simp only: simp_thms)
qed

text \<open>
  C19: a submission at the stored coordinates (as numbers) scores 100.
\<close>

theorem geo_same_location:
  assumes "jget geo ''lat'' (JInt 0) = Inr vlat" "num_val vlat = Some (Fin slat)"
    and "jget geo ''lon'' (JInt 0) = Inr vlon" "num_val vlon = Some (Fin slon)"
  shows "geo_score slat slon geo = Inr 100"
  using geo_score_numeric [OF assms] by (simp add: geo_bucket_radicand_def)

theorem geo_same_location_witness:
  "jget (JObj [(''lat'', JInt 10), (''lon'', JFloat (Fin 20))]) ''lat'' (JInt 0) = Inr (JInt 10)
   \<and> num_val (JInt 10) = Some (Fin 10)
   \<and> jget (JObj [(''lat'', JInt 10), (''lon'', JFloat (Fin 20))]) ''lon'' (JInt 0) = Inr (JFloat (Fin 20))
   \<and> num_val (JFloat (Fin 20)) = Some (Fin 20)
   \<and> geo_score 10 20 (JObj [(''lat'', JInt 10), (''lon'', JFloat (Fin 20))]) = Inr 100"
proof -
  have h: "jget (JObj [(''lat'', JInt 10), (''lon'', JFloat (Fin 20))]) ''lat'' (JInt 0) = Inr (JInt 10)"
    "num_val (JInt 10) = Some (Fin 10)"
    "jget (JObj [(''lat'', JInt 10), (''lon'', JFloat (Fin 20))]) ''lon'' (JInt 0) = Inr (JFloat (Fin 20))"
    "num_val (JFloat (Fin 20)) = Some (Fin 20)"
    by simp_all
  show ?thesis using h geo_same_location [OF h] by simp
qed

text \<open>
  C20: with numeric coordinates whose deltas \<open>(stored - submitted)\<close> sum to a negative
  number, \<open>math.sqrt\<close> raises \<open>ValueError\<close>: the scorer does not return a score at all
  (and \<open>verify\<close> answers with a 500 error).
\<close>

theorem geo_negative_radicand_error:
  assumes "jget geo ''lat'' (JInt 0) = Inr vlat" "num_val vlat = Some (Fin lat)"
    and "jget geo ''lon'' (JInt 0) = Inr vlon" "num_val vlon = Some (Fin lon)"
    and "(slat - lat) + (slon - lon) < 0"
  shows "geo_score slat slon geo = Inl ValueError"
  using geo_score_numeric [OF assms(1-4)] assms(5) by (simp add: geo_bucket_radicand_def)

theorem geo_negative_radicand_error_witness:
  "jget (JObj [(''lat'', JFloat (Fin 10.001)), (''lon'', JInt 20)]) ''lat'' (JInt 0) = Inr (JFloat (Fin 10.001))
   \<and> num_val (JFloat (Fin 10.001)) = Some (Fin 10.001)
   \<and> jget (JObj [(''lat'', JFloat (Fin 10.001)), (''lon'', JInt 20)]) ''lon'' (JInt 0) = Inr (JInt 20)
   \<and> num_val (JInt 20) = Some (Fin 20)
   \<and> ((10::real) - 10.001) + (20 - 20) < 0
   \<and> geo_score 10 20 (JObj [(''lat'', JFloat (Fin 10.001)), (''lon'', JInt 20)]) = Inl ValueError"
proof -
  have h: "jget (JObj [(''lat'', JFloat (Fin 10.001)), (''lon'', JInt 20)]) ''lat'' (JInt 0) = Inr (JFloat (Fin 10.001))"
    "num_val (JFloat (Fin 10.001)) = Some (Fin 10.001)"
    "jget (JObj [(''lat'', JFloat (Fin 10.001)), (''lon'', JInt 20)]) ''lon'' (JInt 0) = Inr (JInt 20)"
    "num_val (JInt 20) = Some (Fin 20)"
    "((10::real) - 10.001) + (20 - 20) < 0"
    by simp_all
  show ?thesis using h geo_negative_radicand_error [OF h] by simp
qed

text \<open>
  C21: the "distance" is not a distance: \<open>(d)*2\<close> doubles the deltas instead of
  squaring them, so opposite deltas cancel. A submission moved by any amount \<open>t\<close>
  north and the same amount west of the stored point (for \<open>t = 1\<close> about 157 km
  away) gets the full geo score 100.
\<close>

theorem geo_formula_not_a_distance:
  "geo_score slat slon (JObj [(''lat'', JFloat (Fin (slat + t))), (''lon'', JFloat (Fin (slon - t)))]) = Inr 100"
proof -
  have "geo_score slat slon (JObj [(''lat'', JFloat (Fin (slat + t))), (''lon'', JFloat (Fin (slon - t)))])
          = geo_bucket_radicand ((slat - (slat + t)) * 2 + (slon - (slon - t)) * 2)"
    by (rule geo_score_numeric [where vlat = "JFloat (Fin (slat + t))" and lat = "slat + t"
          and vlon = "JFloat (Fin (slon - t))" and lon = "slon - t"]) simp_all
  then show ?thesis by (simp add: geo_bucket_radicand_def)
qed

text \<open>
  C22: the submitted coordinates are not converted with \<open>float()\<close>: as soon as one
  of them is not a number (a string such as \<open>"10"\<close>, \<open>null\<close>, a list or an object),
  the subtraction raises \<open>TypeError\<close> and no geo score is computed.
\<close>

theorem geo_score_type_errors:
  assumes "jget geo ''lat'' (JInt 0) = Inr vlat" "jget geo ''lon'' (JInt 0) = Inr vlon"
    and "num_val vlat = None \<or> num_val vlon = None"
  shows "geo_score slat slon geo = Inl TypeError"
  using assms by (auto simp: geo_score_def geo_dist_def py_num_sub_def split: option.split)

theorem geo_score_type_errors_witness:
  "jget (JObj [(''lat'', JStr ''10''), (''lon'', JInt 20)]) ''lat'' (JInt 0) = Inr (JStr ''10'')
   \<and> jget (JObj [(''lat'', JStr ''10''), (''lon'', JInt 20)]) ''lon'' (JInt 0) = Inr (JInt 20)
   \<and> num_val (JStr ''10'') = None
   \<and> geo_score 10 20 (JObj [(''lat'', JStr ''10''), (''lon'', JInt 20)]) = Inl TypeError"
proof -
  have h: "jget (JObj [(''lat'', JStr ''10''), (''lon'', JInt 20)]) ''lat'' (JInt 0) = Inr (JStr ''10'')"
    "jget (JObj [(''lat'', JStr ''10''), (''lon'', JInt 20)]) ''lon'' (JInt 0) = Inr (JInt 20)"
    "num_val (JStr ''10'') = None \<or> num_val (JInt 20) = None"
    by simp_all
  show ?thesis using h geo_score_type_errors [OF h] by simp
qed

end
