(* ===== verification/Decision.thy ===== *)
theory Decision
  imports PyFloat
begin

text \<open>
  The decision engine, inline in \<open>verify()\<close> of \<open>src/acc.py\<close> (lines 174--183):
  \<open>total = round(k * 0.55 + f * 0.25 + g * 0.20, 2)\<close> from the keystroke, face and geo
  scores, then \<open>allow\<close> from 75, \<open>mfa\<close> from 55, \<open>block\<close> below, tested in that
  order with \<open>>=\<close>. The geo score is a Python int. \<open>decision_rank\<close> orders the
  outcomes from least to most trusting.
\<close>

datatype decision = Allow | Mfa | Block

definition total_score :: "pyfloat \<Rightarrow> pyfloat \<Rightarrow> nat \<Rightarrow> pyfloat" where
  "total_score kscore fscore geoscore =
     py_round (fadd (fadd (fmul kscore (Fin 0.55)) (fmul fscore (Fin 0.25)))
                    (fmul (Fin (of_nat geoscore)) (Fin 0.20)))"

definition decide :: "pyfloat \<Rightarrow> decision" where
  "decide tot = (if fge tot (Fin 75) then Allow else if fge tot (Fin 55) then Mfa else Block)"

fun decision_rank :: "decision \<Rightarrow> nat" where
  "decision_rank Block = 0"
| "decision_rank Mfa = 1"
| "decision_rank Allow = 2"

section \<open>Lemmas\<close>

lemma total_score_Fin [score_simps]:
  "total_score (Fin k) (Fin f) g = Fin (round2 (k * 0.55 + f * 0.25 + of_nat g * 0.20))"
  by (simp add: total_score_def)

lemma decide_Fin [score_simps]:
  "decide (Fin t) = (if 75 \<le> t then Allow else if 55 \<le> t then Mfa else Block)"
  by (simp add: decide_def)

lemma total_raw_bounds:
  assumes "0 \<le> k" "k \<le> 100" "0 \<le> f" "f \<le> 100" "g \<le> 100"
  shows "0 \<le> k * 0.55 + f * 0.25 + of_nat g * 0.20 \<and> k * 0.55 + f * 0.25 + of_nat g * 0.20 \<le> (100::real)"
proof -
  have "real g \<le> 100" using assms(5) by simp
  then show ?thesis using assms(1-4) by simp
qed

section \<open>Properties\<close>

text \<open>
  C12: with the face and geo scores in their documented ranges the keystroke score
  carries the decision: a keystroke score below 18 is always blocked, and allow needs a
  keystroke score above 54, whatever the face and geo scores are (face and geo add at
  most \<open>0.25 * 100 + 0.20 * 100 = 45\<close> to the total).
\<close>

theorem keystroke_carries_decision:
  assumes "0 \<le> k" "k \<le> 100" "0 \<le> f" "f \<le> 100" "g \<le> 100"
  shows "(decide (total_score (Fin k) (Fin f) g) = Allow \<longrightarrow> 54 < k)
         \<and> (k < 18 \<longrightarrow> decide (total_score (Fin k) (Fin f) g) = Block)"
proof -
  define x where "x = k * 0.55 + f * 0.25 + of_nat g * 0.20"
  have "real g \<le> 100" using assms(5) by simp
  then have up: "x \<le> 11/20 * k + 45" using assms(4) by (simp add: x_def)
  have "\<bar>round2 x - x\<bar> \<le> 1/200" by (rule round2_error)
  then have err: "x - 1/200 \<le> round2 x" "round2 x \<le> x + 1/200" by linarith+
  have tot: "total_score (Fin k) (Fin f) g = Fin (round2 x)" by (simp add: total_score_Fin x_def)
  show ?thesis
  proof (intro conjI impI)
    assume "decide (total_score (Fin k) (Fin f) g) = Allow"
    then have "75 \<le> round2 x" by (simp add: tot decide_Fin split: if_splits)
    with err up show "54 < k" by linarith
  next
    assume "k < 18"
    with err up have "round2 x < 55" by linarith
    then show "decide (total_score (Fin k) (Fin f) g) = Block" by (simp add: tot decide_Fin)
  qed
qed

theorem keystroke_carries_decision_witness:
  "(0::real) \<le> 17 \<and> (17::real) \<le> 100 \<and> (0::real) \<le> 100 \<and> (100::real) \<le> 100 \<and> (100::nat) \<le> 100
   \<and> (17::real) < 18 \<and> decide (total_score (Fin 17) (Fin 100) 100) = Block"
proof -
  have h: "(0::real) \<le> 17" "(17::real) \<le> 100" "(0::real) \<le> 100" "(100::real) \<le> 100" "(100::nat) \<le> 100"
    by simp_all
  show ?thesis using h keystroke_carries_decision [OF h] by simp
qed

text \<open>
  C13: the decision is monotone in the total: a higher finite total never gives a less
  trusting outcome.
\<close>

theorem decide_monotone:
  assumes "t \<le> t'"
  shows "decision_rank (decide (Fin t)) \<le> decision_rank (decide (Fin t'))"
  using assms by (simp add: decide_Fin)

theorem decide_monotone_witness:
  "(60::real) \<le> 80 \<and> decision_rank (decide (Fin 60)) \<le> decision_rank (decide (Fin 80))"
  using decide_monotone [of 60 80] by simp

text \<open>
  C15: with the three scores in their documented ranges (keystroke and face in
  \<open>[0, 100]\<close>, geo at most 100) the total is a finite float in \<open>[0, 100]\<close>, equal to
  the weighted sum \<open>0.55 k + 0.25 f + 0.20 g\<close> rounded to two decimals.
\<close>

theorem total_score_range:
  assumes "0 \<le> k" "k \<le> 100" "0 \<le> f" "f \<le> 100" "g \<le> 100"
  shows "total_score (Fin k) (Fin f) g = Fin (round2 (k * 0.55 + f * 0.25 + of_nat g * 0.20))
         \<and> 0 \<le> round2 (k * 0.55 + f * 0.25 + of_nat g * 0.20)
         \<and> round2 (k * 0.55 + f * 0.25 + of_nat g * 0.20) \<le> 100"
proof -
  have "0 \<le> round2 (k * 0.55 + f * 0.25 + of_nat g * 0.20)
        \<and> round2 (k * 0.55 + f * 0.25 + of_nat g * 0.20) \<le> 100"
    using total_raw_bounds [OF assms] by (intro round2_bounds_0_100) simp_all
  then show ?thesis by (simp only: total_score_Fin simp_thms)
qed

theorem total_score_range_witness:
  "(0::real) \<le> 90 \<and> (90::real) \<le> 100 \<and> (0::real) \<le> 40 \<and> (40::real) \<le> 100 \<and> (60::nat) \<le> 100
   \<and> total_score (Fin 90) (Fin 40) 60 = Fin (round2 (90 * 0.55 + 40 * 0.25 + of_nat (60::nat) * 0.20))
   \<and> 0 \<le> round2 (90 * 0.55 + 40 * 0.25 + of_nat (60::nat) * 0.20)
   \<and> round2 (90 * 0.55 + 40 * 0.25 + of_nat (60::nat) * 0.20) \<le> 100"
proof -
  have h: "(0::real) \<le> 90" "(90::real) \<le> 100" "(0::real) \<le> 40" "(40::real) \<le> 100" "(60::nat) \<le> 100"
    by simp_all
  show ?thesis using h total_score_range [OF h] by (simp only: simp_thms)
qed

end
