(* ===== verification/Service.thy ===== *)
theory Service
  imports Keystroke Face Geo Decision
begin

text \<open>
  The two request handlers of \<open>src/acc.py\<close>, \<open>enroll()\<close> (lines 58--112) and
  \<open>verify()\<close> (lines 114--201), over the MySQL table \<open>users\<close> and the bcrypt
  password verifier.
  \<^item> The table is a map from the username (the request value, as the connector sends it)
    to a \<open>user_row\<close>; \<open>enroll\<close> returns the new table, \<open>verify\<close> only reads it.
  \<^item> bcrypt is a collaborator (\<open>cred_verifier\<close>): \<open>hashpw password salt\<close> and
    \<open>checkpw password hash\<close>; \<open>verifier_sound\<close> is its contract that a password
    checks against its own hash. The salt of \<open>bcrypt.gensalt()\<close> is an input of
    \<open>enroll\<close>.
  \<^item> \<open>db_up\<close> says whether \<open>get_db()\<close> connects; \<open>sql_ok\<close> and \<open>sql_float_ok\<close> say
    which parameters the connector can send (lists, dicts, NaN and infinities cannot be
    written as SQL literals and raise).
  \<^item> Each handler is a \<open>try\<close> body returning a result or an exception
    (\<open>enroll_try\<close>, \<open>verify_try\<close>), and the handler maps an exception to the 500
    response of its \<open>except\<close> clause. Responses are the JSON bodies with their status.
\<close>

record user_row =
  password_hash :: string
  avgDwell :: real
  avgFlight :: real
  face :: jval
  latitude :: real
  longitude :: real

type_synonym users = "jval \<rightharpoonup> user_row"

record cred_verifier =
  hashpw :: "string \<Rightarrow> string \<Rightarrow> string"
  checkpw :: "string \<Rightarrow> string \<Rightarrow> bool"

definition verifier_sound :: "cred_verifier \<Rightarrow> bool" where
  "verifier_sound v = (\<forall>p s. checkpw v p (hashpw v p s))"

datatype response =
    RError string
  | RFailure string pyexc
  | RMessage jval
  | RBlock string
  | RScores jval pyfloat pyfloat nat pyfloat decision

type_synonym http = "nat \<times> response"

section \<open>Collaborators\<close>

text \<open>\<open>password.encode('utf-8')\<close>: only a str has the method.\<close>

fun py_encode :: "jval \<Rightarrow> string res" where
  "py_encode (JStr s) = Inr s"
| "py_encode _ = Inl AttributeError"

fun sql_float_ok :: "pyfloat \<Rightarrow> bool" where
  "sql_float_ok (Fin r) = True"
| "sql_float_ok _ = False"

fun sql_ok :: "jval \<Rightarrow> bool" where
  "sql_ok (JArr xs) = False"
| "sql_ok (JObj kvs) = False"
| "sql_ok (JFloat f) = sql_float_ok f"
| "sql_ok _ = True"

fun real_of_pyfloat :: "pyfloat \<Rightarrow> real" where
  "real_of_pyfloat (Fin r) = r"
| "real_of_pyfloat _ = 0"

text \<open>
  The \<open>INSERT ... ON DUPLICATE KEY UPDATE\<close> of lines 90--105: every column of the row
  is written, on insert and on update alike.
\<close>

definition db_upsert :: "bool \<Rightarrow> jval \<Rightarrow> string \<Rightarrow> pyfloat \<Rightarrow> pyfloat \<Rightarrow> jval \<Rightarrow> pyfloat \<Rightarrow> pyfloat
    \<Rightarrow> users \<Rightarrow> users res" where
  "db_upsert db_up username pw_hash dwell flight face_v lat lon db =
     (if \<not> db_up then Inl DatabaseError
      else if \<not> (sql_ok username \<and> sql_ok face_v \<and> sql_float_ok dwell \<and> sql_float_ok flight
                 \<and> sql_float_ok lat \<and> sql_float_ok lon) then Inl DatabaseError
      else Inr (db(username \<mapsto>
        \<lparr>password_hash = pw_hash, avgDwell = real_of_pyfloat dwell, avgFlight = real_of_pyfloat flight,
         face = face_v, latitude = real_of_pyfloat lat, longitude = real_of_pyfloat lon\<rparr>)))"

text \<open>\<open>SELECT * FROM users WHERE username=%s\<close> and \<open>fetchone()\<close> (lines 138--143).\<close>

definition db_select :: "bool \<Rightarrow> jval \<Rightarrow> users \<Rightarrow> user_row option res" where
  "db_select db_up username db =
     (if \<not> db_up \<or> \<not> sql_ok username then Inl DatabaseError else Inr (db username))"

section \<open>enroll()\<close>

definition enroll_try :: "cred_verifier \<Rightarrow> bool \<Rightarrow> string \<Rightarrow> jval \<Rightarrow> users \<Rightarrow> (http \<times> users) res" where
  "enroll_try v db_up salt data db =
     res_bind (jget data ''username'' JNull) (\<lambda>username.
     res_bind (jget data ''password'' JNull) (\<lambda>password.
     res_bind (jget data ''keystroke'' (JObj [])) (\<lambda>ks.
     res_bind (jget data ''geo'' (JObj [])) (\<lambda>geo.
     res_bind (jget data ''face'' JNull) (\<lambda>face_v.
       if \<not> py_truthy username \<or> \<not> py_truthy password
       then Inr ((400, RError ''username and password required''), db)
       else
         res_bind (py_encode password) (\<lambda>pw.
         let pw_hash = hashpw v pw salt in
         res_bind (get_float ks ''avgDwell'') (\<lambda>dwell.
         res_bind (get_float ks ''avgFlight'') (\<lambda>flight.
         res_bind (get_float geo ''lat'') (\<lambda>lat.
         res_bind (get_float geo ''lon'') (\<lambda>lon.
         res_bind (db_upsert db_up username pw_hash dwell flight face_v lat lon db) (\<lambda>db'.
           Inr ((200, RMessage username), db'))))))))))))"

definition enroll :: "cred_verifier \<Rightarrow> bool \<Rightarrow> string \<Rightarrow> jval \<Rightarrow> users \<Rightarrow> http \<times> users" where
  "enroll v db_up salt data db =
     (case enroll_try v db_up salt data db of
        Inl e \<Rightarrow> ((500, RFailure ''Enrollment failed'' e), db)
      | Inr out \<Rightarrow> out)"

section \<open>verify()\<close>

text \<open>The dict \<open>{'avgDwell': user['avgDwell'], 'avgFlight': user['avgFlight']}\<close> of line 157.\<close>

definition stored_keystroke :: "user_row \<Rightarrow> jval" where
  "stored_keystroke user =
     JObj [(''avgDwell'', JFloat (Fin (avgDwell user))), (''avgFlight'', JFloat (Fin (avgFlight user)))]"

text \<open>The optional password check of lines 150--154: \<open>True\<close> when the request may go on.\<close>

definition password_ok :: "cred_verifier \<Rightarrow> jval \<Rightarrow> user_row \<Rightarrow> bool res" where
  "password_ok v password user =
     (if py_truthy password
      then res_bind (py_encode password) (\<lambda>pw. Inr (checkpw v pw (password_hash user)))
      else Inr True)"

definition verify_try :: "cred_verifier \<Rightarrow> bool \<Rightarrow> jval \<Rightarrow> users \<Rightarrow> http res" where
  "verify_try v db_up data db =
     res_bind (jget data ''username'' JNull) (\<lambda>username.
     res_bind (jget data ''password'' JNull) (\<lambda>password.
     res_bind (jget data ''keystroke'' (JObj [])) (\<lambda>ks.
     res_bind (jget data ''geo'' (JObj [])) (\<lambda>geo.
     res_bind (jget data ''face'' JNull) (\<lambda>face_v.
     res_bind (jget data ''face_score'' JNull) (\<lambda>face_score_override.
       if \<not> py_truthy username then Inr (400, RError ''username required'')
       else
         res_bind (db_select db_up username db) (\<lambda>found.
         case found of
           None \<Rightarrow> Inr (404, RBlock ''user not found'')
         | Some user \<Rightarrow>
             res_bind (password_ok v password user) (\<lambda>ok.
             if \<not> ok then Inr (403, RBlock ''password incorrect'')
             else
               let kscore = keystroke_similarity (stored_keystroke user) ks in
               res_bind (geo_score (latitude user) (longitude user) geo) (\<lambda>geoscore.
               let fscore = face_score_from_value face_score_override;
                   tot = total_score kscore fscore geoscore;
                   result = decide tot in
               res_bind (jget ks ''avgDwell'' JNull) (\<lambda>_.
               res_bind (jget ks ''avgFlight'' JNull) (\<lambda>_.
                 Inr (200, RScores username kscore fscore geoscore tot result))))))))))))"

definition verify :: "cred_verifier \<Rightarrow> bool \<Rightarrow> jval \<Rightarrow> users \<Rightarrow> http" where
  "verify v db_up data db =
     (case verify_try v db_up data db of
        Inl e \<Rightarrow> (500, RFailure ''Verification failed'' e)
      | Inr out \<Rightarrow> out)"

section \<open>Example requests\<close>

text \<open>
  A verifier that satisfies the bcrypt contract (the hash starts with the password) and
  the enrollment request of the spec's example, used by the witnesses below.
\<close>

definition demo_verifier :: cred_verifier where
  "demo_verifier = \<lparr>hashpw = (\<lambda>p s. p @ s), checkpw = (\<lambda>p h. take (length p) h = p)\<rparr>"

definition demo_request :: jval where
  "demo_request = JObj [(''username'', JStr ''alice''), (''password'', JStr ''s3cret''),
     (''keystroke'', JObj [(''avgDwell'', JInt 100), (''avgFlight'', JInt 50)]),
     (''geo'', JObj [(''lat'', JInt 10), (''lon'', JInt 20)])]"

definition demo_row :: user_row where
  "demo_row = \<lparr>password_hash = ''s3cret$2b$'', avgDwell = 100, avgFlight = 50, face = JNull,
                latitude = 10, longitude = 20\<rparr>"

section \<open>Lemmas\<close>

lemma demo_verifier_sound: "verifier_sound demo_verifier"
  by (simp add: verifier_sound_def demo_verifier_def)

lemma enroll_demo:
  "enroll demo_verifier True ''$2b$'' demo_request Map.empty
     = ((200, RMessage (JStr ''alice'')), [JStr ''alice'' \<mapsto> demo_row])"
  by (simp add: enroll_def enroll_try_def demo_request_def demo_verifier_def demo_row_def
      db_upsert_def get_float_def Let_def)

lemma py_encode_Inr [simp]: "py_encode v = Inr s \<longleftrightarrow> v = JStr s"
  by (cases v) auto

lemma sql_float_ok_iff: "sql_float_ok x \<longleftrightarrow> (\<exists>r. x = Fin r)"
  by (cases x) auto

lemma jget_dict_Inr: "is_dict d \<Longrightarrow> \<exists>x. jget d k dflt = Inr x"
  by (cases d) auto

lemma enroll_200_try:
  "enroll v db_up salt data db = ((200, r), db') \<Longrightarrow> enroll_try v db_up salt data db = Inr ((200, r), db')"
  by (auto simp: enroll_def split: sum.splits)

text \<open>What a successful enrollment read from the request and wrote to the table.\<close>

lemma enroll_success:
  assumes "enroll v db_up salt data db = ((200, RMessage u), db')"
  obtains pw ks geo face_v d f la lo where
    "jget data ''username'' JNull = Inr u" "py_truthy u" "sql_ok u"
    "jget data ''password'' JNull = Inr (JStr pw)" "pw \<noteq> []"
    "jget data ''keystroke'' (JObj []) = Inr ks" "jget data ''geo'' (JObj []) = Inr geo"
    "jget data ''face'' JNull = Inr face_v" "sql_ok face_v"
    "get_float ks ''avgDwell'' = Inr (Fin d)" "get_float ks ''avgFlight'' = Inr (Fin f)"
    "get_float geo ''lat'' = Inr (Fin la)" "get_float geo ''lon'' = Inr (Fin lo)"
    "db_up"
    "db' = db(u \<mapsto> \<lparr>password_hash = hashpw v pw salt, avgDwell = d, avgFlight = f,
                      face = face_v, latitude = la, longitude = lo\<rparr>)"
proof -
  from enroll_200_try [OF assms] have e: "enroll_try v db_up salt data db = Inr ((200, RMessage u), db')" .
  then show ?thesis
    by (auto simp: enroll_try_def res_bind_eq_Inr db_upsert_def Let_def sql_float_ok_iff
             split: if_splits intro!: that)
qed

text \<open>A successful enrollment writes the same row whatever the table held before.\<close>

lemma enroll_success_any_table:
  assumes "enroll v db_up salt data db = ((200, RMessage u), db')"
  shows "\<exists>row. db' = db(u \<mapsto> row)
           \<and> (\<forall>db0. enroll v db_up salt data db0 = ((200, RMessage u), db0(u \<mapsto> row)))"
proof -
  obtain pw ks geo face_v d f la lo where
    e: "jget data ''username'' JNull = Inr u" "py_truthy u" "sql_ok u"
    "jget data ''password'' JNull = Inr (JStr pw)" "pw \<noteq> []"
    "jget data ''keystroke'' (JObj []) = Inr ks" "jget data ''geo'' (JObj []) = Inr geo"
    "jget data ''face'' JNull = Inr face_v" "sql_ok face_v"
    "get_float ks ''avgDwell'' = Inr (Fin d)" "get_float ks ''avgFlight'' = Inr (Fin f)"
    "get_float geo ''lat'' = Inr (Fin la)" "get_float geo ''lon'' = Inr (Fin lo)"
    "db_up"
    "db' = db(u \<mapsto> \<lparr>password_hash = hashpw v pw salt, avgDwell = d, avgFlight = f,
                      face = face_v, latitude = la, longitude = lo\<rparr>)"
    using enroll_success [OF assms] by metis
  show ?thesis
    using e by (auto simp: enroll_def enroll_try_def db_upsert_def Let_def)
qed

text \<open>The scoring path of \<open>verify\<close>, once the user is found and the password accepted.\<close>

lemma verify_scoring_path:
  assumes "jget data ''username'' JNull = Inr u" "py_truthy u"
    and "jget data ''password'' JNull = Inr password"
    and "jget data ''keystroke'' (JObj []) = Inr ks" "jget data ''geo'' (JObj []) = Inr geo"
    and "jget data ''face'' JNull = Inr face_v" "jget data ''face_score'' JNull = Inr fo"
    and "db_up" "sql_ok u" "db u = Some user" "password_ok v password user = Inr True"
    and "geo_score (latitude user) (longitude user) geo = Inr g" "is_dict ks"
  shows "verify v db_up data db =
    (200, RScores u (keystroke_similarity (stored_keystroke user) ks) (face_score_from_value fo) g
       (total_score (keystroke_similarity (stored_keystroke user) ks) (face_score_from_value fo) g)
       (decide (total_score (keystroke_similarity (stored_keystroke user) ks) (face_score_from_value fo) g)))"
proof -
  obtain x1 x2 where "jget ks ''avgDwell'' JNull = Inr x1" "jget ks ''avgFlight'' JNull = Inr x2"
    using jget_dict_Inr [OF assms(13)] by blast
  with assms show ?thesis
    by (simp add: verify_def verify_try_def db_select_def Let_def)
qed

lemma verify_200_try:
  "verify v db_up data db = (200, r) \<Longrightarrow> verify_try v db_up data db = Inr (200, r)"
  by (auto simp: verify_def split: sum.splits)

text \<open>Where the fields of a scored response come from.\<close>

lemma verify_scores_elim:
  assumes "verify v db_up data db = (200, RScores u k f g t res)"
  obtains user ks geo fo where
    "jget data ''face_score'' JNull = Inr fo" "f = face_score_from_value fo"
    "k = keystroke_similarity (stored_keystroke user) ks"
    "geo_score (latitude user) (longitude user) geo = Inr g"
    "t = total_score k f g" "res = decide t"
proof -
  from verify_200_try [OF assms] show ?thesis
    by (auto simp: verify_try_def res_bind_eq_Inr Let_def split: if_splits option.splits intro: that)
qed

text \<open>Without a truthy password the credential check passes for every verifier.\<close>

lemma password_ok_falsy: "\<not> py_truthy password \<Longrightarrow> password_ok v password user = Inr True"
  by (simp add: password_ok_def)

text \<open>With the database down, the try bodies only return the 400 answers of their guards.\<close>

lemma enroll_try_db_down:
  "enroll_try v False salt data db = Inr out \<Longrightarrow> out = ((400, RError ''username and password required''), db)"
  by (auto simp: enroll_try_def res_bind_eq_Inr db_upsert_def Let_def split: if_splits)

lemma verify_try_db_down:
  "verify_try v False data db = Inr out \<Longrightarrow> out = (400, RError ''username required'')"
  by (auto simp: verify_try_def res_bind_eq_Inr db_select_def split: if_splits)

section \<open>Properties\<close>

text \<open>
  C23: enrollment followed by verification with the same request body (numeric
  coordinates, no face override) passes the password check and scores keystroke 100,
  face 40, geo 100, total 85: allow. This is the worked example of the spec
  (section 8) for every user, password, salt and profile, given a sound verifier.
\<close>

theorem enroll_then_verify:
  assumes sound: "verifier_sound v"
    and en: "enroll v True salt data db = ((200, RMessage u), db')"
    and fs: "jget data ''face_score'' JNull = Inr JNull"
    and geo: "jget data ''geo'' (JObj []) = Inr geo"
    and lat: "jget geo ''lat'' (JInt 0) = Inr vlat" "num_val vlat \<noteq> None"
    and lon: "jget geo ''lon'' (JInt 0) = Inr vlon" "num_val vlon \<noteq> None"
  shows "verify v True data db' = (200, RScores u (Fin 100) (Fin 40) 100 (Fin 85) Allow)"
proof -
  obtain pw ks geo' face_v d f la lo where
    u: "jget data ''username'' JNull = Inr u" "py_truthy u" "sql_ok u"
    and pw: "jget data ''password'' JNull = Inr (JStr pw)" "pw \<noteq> []"
    and ks: "jget data ''keystroke'' (JObj []) = Inr ks" and g': "jget data ''geo'' (JObj []) = Inr geo'"
    and fv: "jget data ''face'' JNull = Inr face_v"
    and kd: "get_float ks ''avgDwell'' = Inr (Fin d)" "get_float ks ''avgFlight'' = Inr (Fin f)"
    and gl: "get_float geo' ''lat'' = Inr (Fin la)" "get_float geo' ''lon'' = Inr (Fin lo)"
    and db': "db' = db(u \<mapsto> \<lparr>password_hash = hashpw v pw salt, avgDwell = d, avgFlight = f,
                      face = face_v, latitude = la, longitude = lo\<rparr>)"
    using enroll_success [OF en] by metis
  define row where "row = \<lparr>password_hash = hashpw v pw salt, avgDwell = d, avgFlight = f,
                      face = face_v, latitude = la, longitude = lo\<rparr>"
  have geo_eq: "geo' = geo" using g' geo by simp
  have "is_dict ks" using kd(1) get_float_not_dict by fastforce
  have vlat: "num_val vlat = Some (Fin la)"
    using lat gl(1) geo_eq num_val_py_float by (auto simp: get_float_def)
  have vlon: "num_val vlon = Some (Fin lo)"
    using lon gl(2) geo_eq num_val_py_float by (auto simp: get_float_def)
  have geo_score: "geo_score (latitude row) (longitude row) geo = Inr 100"
    using geo_score_numeric [OF lat(1) vlat lon(1) vlon] by (simp add: row_def geo_bucket_radicand_def)
  have pw_ok: "password_ok v (JStr pw) row = Inr True"
    using sound pw(2) by (simp add: password_ok_def verifier_sound_def row_def)
  have ks100: "keystroke_similarity (stored_keystroke row) ks = Fin 100"
    using keystroke_similarity_Fin [of "stored_keystroke row" d f ks d f] kd
    by (simp add: stored_keystroke_def row_def score_simps)
  have "db' u = Some row" by (simp add: db' row_def)
  then show ?thesis
    using verify_scoring_path [OF u(1,2) pw(1) ks geo fv fs _ u(3) _ pw_ok geo_score \<open>is_dict ks\<close>]
      ks100 by (simp add: score_simps)
qed

theorem enroll_then_verify_witness:
  "verifier_sound demo_verifier
   \<and> enroll demo_verifier True ''$2b$'' demo_request Map.empty
       = ((200, RMessage (JStr ''alice'')), [JStr ''alice'' \<mapsto> demo_row])
   \<and> jget demo_request ''face_score'' JNull = Inr JNull
   \<and> jget demo_request ''geo'' (JObj []) = Inr (JObj [(''lat'', JInt 10), (''lon'', JInt 20)])
   \<and> jget (JObj [(''lat'', JInt 10), (''lon'', JInt 20)]) ''lat'' (JInt 0) = Inr (JInt 10)
   \<and> num_val (JInt 10) \<noteq> None
   \<and> jget (JObj [(''lat'', JInt 10), (''lon'', JInt 20)]) ''lon'' (JInt 0) = Inr (JInt 20)
   \<and> num_val (JInt 20) \<noteq> None
   \<and> verify demo_verifier True demo_request [JStr ''alice'' \<mapsto> demo_row]
       = (200, RScores (JStr ''alice'') (Fin 100) (Fin 40) 100 (Fin 85) Allow)"
proof -
  have h: "jget demo_request ''face_score'' JNull = Inr JNull"
    "jget demo_request ''geo'' (JObj []) = Inr (JObj [(''lat'', JInt 10), (''lon'', JInt 20)])"
    "jget (JObj [(''lat'', JInt 10), (''lon'', JInt 20)]) ''lat'' (JInt 0) = Inr (JInt 10)"
    "num_val (JInt 10) \<noteq> None"
    "jget (JObj [(''lat'', JInt 10), (''lon'', JInt 20)]) ''lon'' (JInt 0) = Inr (JInt 20)"
    "num_val (JInt 20) \<noteq> None"
    by (simp_all add: demo_request_def)
  show ?thesis
    using demo_verifier_sound enroll_demo h
      enroll_then_verify [OF demo_verifier_sound enroll_demo h] by simp
qed

text \<open>
  C24: re-enrollment replaces the whole row of the username (credential hash,
  keystroke profile, face, location) with the values of the new request, whatever the
  old row held, and leaves every other user's row as it was (spec section 3).
\<close>

theorem reenroll_replaces:
  assumes en: "enroll v db_up salt data db = ((200, RMessage u), db')"
    and old: "db u = Some old_row"
    and r: "jget data ''password'' JNull = Inr (JStr pw)" "jget data ''keystroke'' (JObj []) = Inr ks"
      "jget data ''geo'' (JObj []) = Inr geo" "jget data ''face'' JNull = Inr fv"
      "get_float ks ''avgDwell'' = Inr (Fin d)" "get_float ks ''avgFlight'' = Inr (Fin f)"
      "get_float geo ''lat'' = Inr (Fin la)" "get_float geo ''lon'' = Inr (Fin lo)"
  shows "db' = db(u \<mapsto> \<lparr>password_hash = hashpw v pw salt, avgDwell = d, avgFlight = f,
                           face = fv, latitude = la, longitude = lo\<rparr>)"
proof -
  obtain pw' ks' geo' fv' d' f' la' lo' where
    e: "jget data ''password'' JNull = Inr (JStr pw')" "jget data ''keystroke'' (JObj []) = Inr ks'"
      "jget data ''geo'' (JObj []) = Inr geo'" "jget data ''face'' JNull = Inr fv'"
      "get_float ks' ''avgDwell'' = Inr (Fin d')" "get_float ks' ''avgFlight'' = Inr (Fin f')"
      "get_float geo' ''lat'' = Inr (Fin la')" "get_float geo' ''lon'' = Inr (Fin lo')"
      "db' = db(u \<mapsto> \<lparr>password_hash = hashpw v pw' salt, avgDwell = d', avgFlight = f',
                      face = fv', latitude = la', longitude = lo'\<rparr>)"
    using enroll_success [OF en] by metis
  from e(1-4) r(1-4) have "pw' = pw" "ks' = ks" "geo' = geo" "fv' = fv" by simp_all
  with e(5-8) r(5-8) have "d' = d" "f' = f" "la' = la" "lo' = lo" by simp_all
  with \<open>pw' = pw\<close> \<open>fv' = fv\<close> e(9) show ?thesis by simp
qed

theorem reenroll_replaces_witness:
  "enroll demo_verifier True ''$2b$'' demo_request [JStr ''alice'' \<mapsto> demo_row\<lparr>password_hash := ''old'', avgDwell := 300\<rparr>]
     = ((200, RMessage (JStr ''alice'')), [JStr ''alice'' \<mapsto> demo_row])
   \<and> [JStr ''alice'' \<mapsto> demo_row\<lparr>password_hash := ''old'', avgDwell := 300\<rparr>] (JStr ''alice'')
       = Some (demo_row\<lparr>password_hash := ''old'', avgDwell := 300\<rparr>)
   \<and> jget demo_request ''password'' JNull = Inr (JStr ''s3cret'')
   \<and> jget demo_request ''keystroke'' (JObj []) = Inr (JObj [(''avgDwell'', JInt 100), (''avgFlight'', JInt 50)])
   \<and> jget demo_request ''geo'' (JObj []) = Inr (JObj [(''lat'', JInt 10), (''lon'', JInt 20)])
   \<and> jget demo_request ''face'' JNull = Inr JNull
   \<and> get_float (JObj [(''avgDwell'', JInt 100), (''avgFlight'', JInt 50)]) ''avgDwell'' = Inr (Fin 100)
   \<and> get_float (JObj [(''avgDwell'', JInt 100), (''avgFlight'', JInt 50)]) ''avgFlight'' = Inr (Fin 50)
   \<and> get_float (JObj [(''lat'', JInt 10), (''lon'', JInt 20)]) ''lat'' = Inr (Fin 10)
   \<and> get_float (JObj [(''lat'', JInt 10), (''lon'', JInt 20)]) ''lon'' = Inr (Fin 20)
   \<and> [JStr ''alice'' \<mapsto> demo_row] = [JStr ''alice'' \<mapsto> demo_row\<lparr>password_hash := ''old'', avgDwell := 300\<rparr>]
         (JStr ''alice'' \<mapsto> \<lparr>password_hash = hashpw demo_verifier ''s3cret'' ''$2b$'',
         avgDwell = 100, avgFlight = 50, face = JNull, latitude = 10, longitude = 20\<rparr>)"
proof -
  have en: "enroll demo_verifier True ''$2b$'' demo_request [JStr ''alice'' \<mapsto> demo_row\<lparr>password_hash := ''old'', avgDwell := 300\<rparr>]
     = ((200, RMessage (JStr ''alice'')), [JStr ''alice'' \<mapsto> demo_row])"
    by (simp add: enroll_def enroll_try_def demo_request_def demo_verifier_def demo_row_def
        db_upsert_def get_float_def Let_def)
  have old: "[JStr ''alice'' \<mapsto> demo_row\<lparr>password_hash := ''old'', avgDwell := 300\<rparr>] (JStr ''alice'')
       = Some (demo_row\<lparr>password_hash := ''old'', avgDwell := 300\<rparr>)" by simp
  have r: "jget demo_request ''password'' JNull = Inr (JStr ''s3cret'')"
    "jget demo_request ''keystroke'' (JObj []) = Inr (JObj [(''avgDwell'', JInt 100), (''avgFlight'', JInt 50)])"
    "jget demo_request ''geo'' (JObj []) = Inr (JObj [(''lat'', JInt 10), (''lon'', JInt 20)])"
    "jget demo_request ''face'' JNull = Inr JNull"
    "get_float (JObj [(''avgDwell'', JInt 100), (''avgFlight'', JInt 50)]) ''avgDwell'' = Inr (Fin 100)"
    "get_float (JObj [(''avgDwell'', JInt 100), (''avgFlight'', JInt 50)]) ''avgFlight'' = Inr (Fin 50)"
    "get_float (JObj [(''lat'', JInt 10), (''lon'', JInt 20)]) ''lat'' = Inr (Fin 10)"
    "get_float (JObj [(''lat'', JInt 10), (''lon'', JInt 20)]) ''lon'' = Inr (Fin 20)"
    by (simp_all add: demo_request_def get_float_def)
  show ?thesis using en old r reenroll_replaces [OF en old r] by blast
qed

text \<open>
  C25: an enrollment without a username or without a password (missing, empty,
  \<open>null\<close>, 0) is refused with 400 and leaves the table unchanged.
\<close>

theorem enroll_missing_credentials:
  assumes "is_dict data" "jget data ''username'' JNull = Inr u" "jget data ''password'' JNull = Inr p"
    and "\<not> (py_truthy u \<and> py_truthy p)"
  shows "enroll v db_up salt data db = ((400, RError ''username and password required''), db)"
  using assms by (cases data) (auto simp: enroll_def enroll_try_def)

theorem enroll_missing_credentials_witness:
  "is_dict (JObj [(''username'', JStr ''alice''), (''password'', JStr [])])
   \<and> jget (JObj [(''username'', JStr ''alice''), (''password'', JStr [])]) ''username'' JNull = Inr (JStr ''alice'')
   \<and> jget (JObj [(''username'', JStr ''alice''), (''password'', JStr [])]) ''password'' JNull = Inr (JStr [])
   \<and> (\<not> (py_truthy (JStr ''alice'') \<and> py_truthy (JStr [])))
   \<and> enroll demo_verifier True ''$2b$'' (JObj [(''username'', JStr ''alice''), (''password'', JStr [])]) Map.empty
       = ((400, RError ''username and password required''), Map.empty)"
proof -
  have h: "is_dict (JObj [(''username'', JStr ''alice''), (''password'', JStr [])])"
    "jget (JObj [(''username'', JStr ''alice''), (''password'', JStr [])]) ''username'' JNull = Inr (JStr ''alice'')"
    "jget (JObj [(''username'', JStr ''alice''), (''password'', JStr [])]) ''password'' JNull = Inr (JStr [])"
    "\<not> (py_truthy (JStr ''alice'') \<and> py_truthy (JStr []))"
    by simp_all
  show ?thesis using h enroll_missing_credentials [OF h] by simp
qed

text \<open>
  C26: verifying a username that has no row gives 404 with the reason
  "user not found", never a score.
\<close>

theorem verify_unknown_user:
  assumes "is_dict data" "jget data ''username'' JNull = Inr u" "py_truthy u" "sql_ok u" "db u = None"
  shows "verify v True data db = (404, RBlock ''user not found'')"
  using assms by (cases data) (auto simp: verify_def verify_try_def db_select_def)

theorem verify_unknown_user_witness:
  "is_dict demo_request \<and> jget demo_request ''username'' JNull = Inr (JStr ''alice'')
   \<and> py_truthy (JStr ''alice'') \<and> sql_ok (JStr ''alice'') \<and> (Map.empty :: users) (JStr ''alice'') = None
   \<and> verify demo_verifier True demo_request Map.empty = (404, RBlock ''user not found'')"
proof -
  have h: "is_dict demo_request" "jget demo_request ''username'' JNull = Inr (JStr ''alice'')"
    "py_truthy (JStr ''alice'')" "sql_ok (JStr ''alice'')" "(Map.empty :: users) (JStr ''alice'') = None"
    by (simp_all add: demo_request_def)
  show ?thesis using h verify_unknown_user [OF h] by simp
qed

text \<open>
  C27: a supplied password that does not match the stored hash gives 403 with the
  reason "password incorrect": a block distinct from a scoring block, which is a 200
  response carrying the scores.
\<close>

theorem verify_wrong_password:
  assumes "is_dict data" "jget data ''username'' JNull = Inr u" "py_truthy u" "sql_ok u"
    and "db u = Some user" "jget data ''password'' JNull = Inr (JStr p)" "p \<noteq> []"
    and "\<not> checkpw v p (password_hash user)"
  shows "verify v True data db = (403, RBlock ''password incorrect'')"
  using assms by (cases data) (auto simp: verify_def verify_try_def db_select_def password_ok_def)

theorem verify_wrong_password_witness:
  "is_dict (JObj [(''username'', JStr ''alice''), (''password'', JStr ''guess'')])
   \<and> jget (JObj [(''username'', JStr ''alice''), (''password'', JStr ''guess'')]) ''username'' JNull = Inr (JStr ''alice'')
   \<and> py_truthy (JStr ''alice'') \<and> sql_ok (JStr ''alice'')
   \<and> [JStr ''alice'' \<mapsto> demo_row] (JStr ''alice'') = Some demo_row
   \<and> jget (JObj [(''username'', JStr ''alice''), (''password'', JStr ''guess'')]) ''password'' JNull = Inr (JStr ''guess'')
   \<and> ''guess'' \<noteq> []
   \<and> \<not> checkpw demo_verifier ''guess'' (password_hash demo_row)
   \<and> verify demo_verifier True (JObj [(''username'', JStr ''alice''), (''password'', JStr ''guess'')])
        [JStr ''alice'' \<mapsto> demo_row] = (403, RBlock ''password incorrect'')"
proof -
  have h: "is_dict (JObj [(''username'', JStr ''alice''), (''password'', JStr ''guess'')])"
    "jget (JObj [(''username'', JStr ''alice''), (''password'', JStr ''guess'')]) ''username'' JNull = Inr (JStr ''alice'')"
    "py_truthy (JStr ''alice'')" "sql_ok (JStr ''alice'')"
    "[JStr ''alice'' \<mapsto> demo_row] (JStr ''alice'') = Some demo_row"
    "jget (JObj [(''username'', JStr ''alice''), (''password'', JStr ''guess'')]) ''password'' JNull = Inr (JStr ''guess'')"
    "''guess'' \<noteq> []"
    "\<not> checkpw demo_verifier ''guess'' (password_hash demo_row)"
    by (simp_all add: demo_verifier_def demo_row_def)
  show ?thesis using h verify_wrong_password [where db = "[JStr ''alice'' \<mapsto> demo_row]", OF h] by simp
qed

text \<open>
  C16: the password is optional at verification (spec section 4.5, lines 149--154):
  a request without a password, or with an empty one, never gets the 403
  \<open>password incorrect\<close> answer, and its response does not depend on the credential
  verifier at all: the stored hash is not consulted.
\<close>

theorem verify_without_password:
  assumes "jget data ''password'' JNull = Inr p" "\<not> py_truthy p"
  shows "verify v db_up data db = verify v' db_up data db \<and> fst (verify v db_up data db) \<noteq> 403"
proof -
  have ok: "\<And>w user. password_ok w p user = Inr True" using assms(2) by (rule password_ok_falsy)
  show ?thesis
  proof
    show "verify v db_up data db = verify v' db_up data db"
      using assms(1) by (simp add: verify_def verify_try_def ok cong: if_cong)
    show "fst (verify v db_up data db) \<noteq> 403"
      using assms(1)
      by (auto simp: verify_def verify_try_def ok res_bind_def Let_def
               split: sum.splits option.splits if_splits)
  qed
qed

theorem verify_without_password_witness:
  "jget (JObj [(''username'', JStr ''alice'')]) ''password'' JNull = Inr JNull \<and> \<not> py_truthy JNull
   \<and> verify demo_verifier True (JObj [(''username'', JStr ''alice'')]) [JStr ''alice'' \<mapsto> demo_row]
       = verify \<lparr>hashpw = (\<lambda>p s. s), checkpw = (\<lambda>p h. False)\<rparr> True (JObj [(''username'', JStr ''alice'')])
           [JStr ''alice'' \<mapsto> demo_row]
   \<and> fst (verify demo_verifier True (JObj [(''username'', JStr ''alice'')]) [JStr ''alice'' \<mapsto> demo_row]) \<noteq> 403"
proof -
  have h: "jget (JObj [(''username'', JStr ''alice'')]) ''password'' JNull = Inr JNull" "\<not> py_truthy JNull"
    by simp_all
  show ?thesis using h verify_without_password [OF h, of demo_verifier True "[JStr ''alice'' \<mapsto> demo_row]"
      "\<lparr>hashpw = (\<lambda>p s. s), checkpw = (\<lambda>p h. False)\<rparr>"] by blast
qed

text \<open>
  C18: when \<open>get_db()\<close> cannot connect, no request succeeds and the table is unchanged:
  an enrollment answers 400 (missing credentials, checked before connecting) or 500
  \<open>Enrollment failed\<close>, a verification 400 (no username) or 500
  \<open>Verification failed\<close>; neither ever returns a score or a message of success.
\<close>

theorem db_down_fails_closed:
  "((\<exists>e. enroll v False salt data db = ((500, RFailure ''Enrollment failed'' e), db))
      \<or> enroll v False salt data db = ((400, RError ''username and password required''), db))
   \<and> ((\<exists>e. verify v False data' db = (500, RFailure ''Verification failed'' e))
      \<or> verify v False data' db = (400, RError ''username required''))"
proof
  show "(\<exists>e. enroll v False salt data db = ((500, RFailure ''Enrollment failed'' e), db))
      \<or> enroll v False salt data db = ((400, RError ''username and password required''), db)"
    by (cases "enroll_try v False salt data db") (auto simp: enroll_def dest: enroll_try_db_down)
  show "(\<exists>e. verify v False data' db = (500, RFailure ''Verification failed'' e))
      \<or> verify v False data' db = (400, RError ''username required'')"
    by (cases "verify_try v False data' db") (auto simp: verify_def dest: verify_try_db_down)
qed

end
