(* ===== verification/Session.thy ===== *)
theory Session
  imports Service
begin

text \<open>
  The application as a state machine over the \<open>users\<close> table. Requests are served one
  at a time, in the order the database serialises them (spec section 5: each request
  is one synchronous unit of work, concurrent upserts of one username are
  last-writer-wins). A request carries what the environment decides for it: whether
  \<open>get_db()\<close> connects, the salt \<open>bcrypt.gensalt()\<close> draws, and the JSON body.
  \<open>handles\<close> is the step relation, \<open>reachable\<close> the tables that a run from the empty
  table can produce, \<open>store_inv\<close> what every such table satisfies.
\<close>

datatype request = EnrollReq bool string jval | VerifyReq bool jval

inductive handles :: "cred_verifier \<Rightarrow> users \<Rightarrow> request \<Rightarrow> http \<Rightarrow> users \<Rightarrow> bool" where
  enroll_step: "enroll v db_up salt data db = (r, db') \<Longrightarrow> handles v db (EnrollReq db_up salt data) r db'"
| verify_step: "verify v db_up data db = r \<Longrightarrow> handles v db (VerifyReq db_up data) r db"

inductive reachable :: "cred_verifier \<Rightarrow> users \<Rightarrow> bool" where
  empty: "reachable v Map.empty"
| step: "reachable v db \<Longrightarrow> handles v db req r db' \<Longrightarrow> reachable v db'"

inductive_cases handles_EnrollE: "handles v db (EnrollReq db_up salt data) r db'"
inductive_cases handles_VerifyE: "handles v db (VerifyReq db_up data) r db'"

text \<open>
  Every stored row belongs to a truthy username the connector can send, and its hash
  was made by the verifier from a non-empty password.
\<close>

definition store_inv :: "cred_verifier \<Rightarrow> users \<Rightarrow> bool" where
  "store_inv v db =
     (\<forall>k row. db k = Some row \<longrightarrow>
        py_truthy k \<and> sql_ok k \<and> (\<exists>pw salt. pw \<noteq> [] \<and> password_hash row = hashpw v pw salt))"

section \<open>Lemmas\<close>

text \<open>An enrollment leaves the table alone or writes one row for a valid username.\<close>

lemma db_upsert_Inr:
  "db_upsert up u h d f fv la lo db = Inr db' \<Longrightarrow>
     sql_ok u \<and> (\<exists>row. password_hash row = h \<and> db' = db(u \<mapsto> row))"
  unfolding db_upsert_def
  by (auto split: if_splits intro!: exI [where x = "\<lparr>password_hash = h, avgDwell = real_of_pyfloat d,
        avgFlight = real_of_pyfloat f, face = fv, latitude = real_of_pyfloat la,
        longitude = real_of_pyfloat lo\<rparr>"])

lemma enroll_try_Inr_cases:
  assumes "enroll_try v db_up salt data db = Inr (r, db')"
  shows "db' = db \<or> (\<exists>u pw. py_truthy u \<and> sql_ok u \<and> pw \<noteq> [] \<and>
           (\<exists>row. password_hash row = hashpw v pw salt \<and> db' = db(u \<mapsto> row)))"
proof -
  from assms obtain u p where
    u: "jget data ''username'' JNull = Inr u" "jget data ''password'' JNull = Inr p"
    by (auto simp: enroll_try_def res_bind_eq_Inr)
  show ?thesis
  proof (cases "py_truthy u \<and> py_truthy p")
    case False
    with assms u show ?thesis by (auto simp: enroll_try_def res_bind_eq_Inr)
  next
    case True
    with assms u obtain pw h d f fv la lo where
      "p = JStr pw" "db_upsert db_up u h d f fv la lo db = Inr db'" "h = hashpw v pw salt"
      by (auto simp: enroll_try_def res_bind_eq_Inr Let_def)
    with True show ?thesis by (auto dest!: db_upsert_Inr)
  qed
qed

lemma enroll_table_cases:
  assumes "enroll v db_up salt data db = (r, db')"
  shows "db' = db \<or> (\<exists>u pw. py_truthy u \<and> sql_ok u \<and> pw \<noteq> [] \<and>
           (\<exists>row. password_hash row = hashpw v pw salt \<and> db' = db(u \<mapsto> row)))"
proof (cases "enroll_try v db_up salt data db")
  case (Inl e)
  with assms show ?thesis by (simp add: enroll_def)
next
  case (Inr out)
  with assms have "enroll_try v db_up salt data db = Inr (r, db')" by (simp add: enroll_def)
  then show ?thesis by (rule enroll_try_Inr_cases)
qed

lemma store_inv_empty: "store_inv v Map.empty"
  by (simp add: store_inv_def)

lemma store_inv_upd:
  assumes "store_inv v db" "py_truthy u" "sql_ok u" "pw \<noteq> []"
    and "password_hash row = hashpw v pw salt"
  shows "store_inv v (db(u \<mapsto> row))"
  unfolding store_inv_def
proof (intro allI impI)
  fix k r
  assume k: "(db(u \<mapsto> row)) k = Some r"
  show "py_truthy k \<and> sql_ok k \<and> (\<exists>pw salt. pw \<noteq> [] \<and> password_hash r = hashpw v pw salt)"
  proof (cases "k = u")
    case True
    with k have "r = row" by simp
    with True assms(2-5) show ?thesis by blast
  next
    case False
    with k have "db k = Some r" by simp
    with assms(1) show ?thesis by (simp add: store_inv_def)
  qed
qed

lemma handles_store_inv:
  assumes "handles v db req r db'" and "store_inv v db"
  shows "store_inv v db'"
  using assms
proof (induction rule: handles.induct)
  case (enroll_step v db_up salt data db r db')
  from enroll_table_cases [OF enroll_step.hyps] enroll_step.prems show ?case
    by (auto intro: store_inv_upd)
next
  case (verify_step v db_up data db r)
  from verify_step.prems show ?case .
qed

lemma reachable_store_inv_lemma: "reachable v db \<Longrightarrow> store_inv v db"
  by (induction rule: reachable.induct) (auto simp: store_inv_empty handles_store_inv)

lemma reachable_demo: "reachable demo_verifier [JStr ''alice'' \<mapsto> demo_row]"
proof -
  have "handles demo_verifier Map.empty (EnrollReq True ''$2b$'' demo_request)
          (200, RMessage (JStr ''alice'')) [JStr ''alice'' \<mapsto> demo_row]"
    by (rule handles.enroll_step) (rule enroll_demo)
  then show ?thesis by (rule reachable.step [OF reachable.empty])
qed

section \<open>Properties\<close>

text \<open>
  C31: in every table reachable from the empty one by any sequence of enroll and verify
  requests (with the database up or down, any salts and bodies), every row belongs to
  a truthy username and holds a hash the verifier made from a non-empty password.
\<close>

theorem reachable_store_inv:
  assumes "reachable v db"
  shows "store_inv v db"
  using assms by (rule reachable_store_inv_lemma)

theorem reachable_store_inv_witness:
  "reachable demo_verifier [JStr ''alice'' \<mapsto> demo_row] \<and> store_inv demo_verifier [JStr ''alice'' \<mapsto> demo_row]"
  using reachable_demo reachable_store_inv [OF reachable_demo] by simp

text \<open>
  C32: with a sound verifier, every user in a reachable table can authenticate: some
  non-empty password passes the check of \<open>verify\<close>, so the 403 branch is avoidable.
\<close>

theorem enrolled_user_can_authenticate:
  assumes "verifier_sound v" "reachable v db" "db u = Some row"
  shows "\<exists>pw. pw \<noteq> [] \<and> password_ok v (JStr pw) row = Inr True"
proof -
  from reachable_store_inv_lemma [OF assms(2)] assms(3)
  have "\<exists>pw salt. pw \<noteq> [] \<and> password_hash row = hashpw v pw salt"
    by (simp add: store_inv_def)
  then obtain pw salt where "pw \<noteq> []" "password_hash row = hashpw v pw salt"
    by blast
  with assms(1) show ?thesis by (auto simp: password_ok_def verifier_sound_def)
qed

theorem enrolled_user_can_authenticate_witness:
  "verifier_sound demo_verifier \<and> reachable demo_verifier [JStr ''alice'' \<mapsto> demo_row]
   \<and> [JStr ''alice'' \<mapsto> demo_row] (JStr ''alice'') = Some demo_row
   \<and> (\<exists>pw. pw \<noteq> [] \<and> password_ok demo_verifier (JStr pw) demo_row = Inr True)"
proof -
  have "[JStr ''alice'' \<mapsto> demo_row] (JStr ''alice'') = Some demo_row" by simp
  with demo_verifier_sound reachable_demo
  show ?thesis using enrolled_user_can_authenticate [OF demo_verifier_sound reachable_demo] by simp
qed

text \<open>
  C33: last writer wins: when two enrollments of the same username succeed one after
  the other, the table afterwards is the one the second enrollment makes from the
  table before the first; nothing of the first request survives.
\<close>

theorem last_writer_wins:
  assumes "handles v db (EnrollReq up1 s1 d1) (200, RMessage u) db1"
    and "handles v db1 (EnrollReq up2 s2 d2) (200, RMessage u) db2"
  shows "db2 = snd (enroll v up2 s2 d2 db)"
proof -
  from assms(1) have e1: "enroll v up1 s1 d1 db = ((200, RMessage u), db1)"
    by (auto elim: handles_EnrollE)
  from assms(2) have e2: "enroll v up2 s2 d2 db1 = ((200, RMessage u), db2)"
    by (auto elim: handles_EnrollE)
  obtain row1 where db1: "db1 = db(u \<mapsto> row1)"
    using enroll_success_any_table [OF e1] by blast
  obtain row2 where db2: "db2 = db1(u \<mapsto> row2)"
    and any: "\<forall>db0. enroll v up2 s2 d2 db0 = ((200, RMessage u), db0(u \<mapsto> row2))"
    using enroll_success_any_table [OF e2] by blast
  from any have "snd (enroll v up2 s2 d2 db) = db(u \<mapsto> row2)" by simp
  with db1 db2 show ?thesis by simp
qed

theorem last_writer_wins_witness:
  "handles demo_verifier Map.empty (EnrollReq True ''$2b$'' demo_request)
      (200, RMessage (JStr ''alice'')) [JStr ''alice'' \<mapsto> demo_row]
   \<and> handles demo_verifier [JStr ''alice'' \<mapsto> demo_row]
      (EnrollReq True ''$2b$'' (JObj [(''username'', JStr ''alice''), (''password'', JStr ''n3w'')]))
      (200, RMessage (JStr ''alice''))
      [JStr ''alice'' \<mapsto> \<lparr>password_hash = ''n3w$2b$'', avgDwell = 0, avgFlight = 0, face = JNull,
                              latitude = 0, longitude = 0\<rparr>]
   \<and> [JStr ''alice'' \<mapsto> \<lparr>password_hash = ''n3w$2b$'', avgDwell = 0, avgFlight = 0, face = JNull,
                              latitude = 0, longitude = 0\<rparr>]
       = snd (enroll demo_verifier True ''$2b$''
                (JObj [(''username'', JStr ''alice''), (''password'', JStr ''n3w'')]) Map.empty)"
proof -
  have h1: "handles demo_verifier Map.empty (EnrollReq True ''$2b$'' demo_request)
      (200, RMessage (JStr ''alice'')) [JStr ''alice'' \<mapsto> demo_row]"
    by (rule handles.enroll_step) (rule enroll_demo)
  have h2: "handles demo_verifier [JStr ''alice'' \<mapsto> demo_row]
      (EnrollReq True ''$2b$'' (JObj [(''username'', JStr ''alice''), (''password'', JStr ''n3w'')]))
      (200, RMessage (JStr ''alice''))
      [JStr ''alice'' \<mapsto> \<lparr>password_hash = ''n3w$2b$'', avgDwell = 0, avgFlight = 0, face = JNull,
                              latitude = 0, longitude = 0\<rparr>]"
    by (rule handles.enroll_step)
       (simp add: enroll_def enroll_try_def demo_verifier_def db_upsert_def Let_def get_float_def)
  have "[JStr ''alice'' \<mapsto> demo_row](JStr ''alice'' \<mapsto> \<lparr>password_hash = ''n3w$2b$'', avgDwell = 0,
          avgFlight = 0, face = JNull, latitude = 0, longitude = 0\<rparr>)
        = [JStr ''alice'' \<mapsto> \<lparr>password_hash = ''n3w$2b$'', avgDwell = 0, avgFlight = 0, face = JNull,
                              latitude = 0, longitude = 0\<rparr>]" by simp
  then show ?thesis using h1 h2 last_writer_wins [OF h1 h2] by simp
qed

end
