(* ===== verification/Spec2Isabelle.thy ===== *)
theory Spec2Isabelle
  imports Session
begin

text \<open>
  A verification model of CynLock, the behavioural-biometric login gate of
  \<open>src/acc.py\<close> (a Flask application backed by MySQL). The program enrolls a user
  (password hash, average keystroke dwell and flight times, a location, an optional
  face blob) and verifies later logins by blending three scores into an
  allow / mfa / block decision.

  \<^bold>\<open>Parts and how they interact.\<close> \<open>enroll()\<close> validates the request, hashes the
  password with bcrypt, converts the keystroke and geo values with \<open>float()\<close> and upserts
  one row of the MySQL table \<open>users\<close>. \<open>verify()\<close> reads that row, optionally checks
  the password, and calls three scorers (\<open>keystroke_similarity\<close>, the inline geo
  buckets, \<open>face_score_from_value\<close>) whose results the inline decision engine blends.
  The only shared state is the table; requests are serialised by the database.

  \<^bold>\<open>Theories.\<close>
  \<^item> \<open>Prelude\<close>: Python exceptions (\<open>pyexc\<close>), results \<open>'a res = pyexc + 'a\<close> and their
    bind \<open>res_bind\<close>; the \<open>score_simps\<close> collection; shared facts on reals.
  \<^item> \<open>PyFloat\<close>: Python floats (\<open>Fin r | PInf | NInf | NaN\<close>), IEEE behaviour on the
    special values, exact arithmetic on finite ones, the builtin \<open>max\<close>, and
    \<open>round(x, 2)\<close> (half to even); rounding lemmas (monotone, within half a cent,
    whole cents fixed).
  \<^item> \<open>PyJson\<close>: JSON request values, truthiness, \<open>dict.get\<close>, and \<open>float(v)\<close> with the
    string grammar of Python's \<open>float()\<close> (signs, underscores, exponents,
    \<open>inf\<close>/\<open>nan\<close>, surrounding whitespace). C11: \<open>float()\<close> reads back \<open>str(i)\<close> of
    every int \<open>i\<close>, padded with any whitespace (a round trip through the digit scanner,
    the mantissa and exponent parsers and \<open>strip\<close>).
  \<^item> \<open>Keystroke\<close>: \<open>keystroke_similarity\<close> (lines 22--41), its \<open>try\<close> body
    \<open>keystroke_try\<close> and the spec's formula \<open>ks_score_spec\<close>. Claims C1--C8: range
    \<open>[0, 100]\<close> for every input, refinement of the formula, self-similarity, score 0
    for every non-finite timing (so NaN profiles are not self-similar), fail-closed,
    symmetry, antitonicity, the real zero threshold.
  \<^item> \<open>Face\<close>: \<open>face_score_from_value\<close> (lines 44--51). C9, C10: every override
    \<open>float()\<close> accepts is used unchanged (no range check), default 40 otherwise.
  \<^item> \<open>Decision\<close>: \<open>total_score\<close> and \<open>decide\<close> (lines 174--183). C12, C13, C15: with
    in-range face and geo scores a keystroke score below 18 is blocked and allow needs
    more than 54; the decision is monotone in the total; the total is the rounded
    weighted sum and lies in \<open>[0, 100]\<close>.
  \<^item> \<open>Geo\<close>: the geo scorer of lines 159--168 with the literal formula
    \<open>sqrt((lat0 - lat)*2 + (lon0 - lon)*2)\<close> (\<open>geo_score\<close>) and its executable form
    without the square root, proved equal and used as code equation. C17, C19--C22:
    for numeric coordinates the score is exactly the spec's step function of
    \<open>dist\<close> (boundaries included), the same place scores 100, \<open>ValueError\<close> on a
    negative radicand, every point moved by \<open>(+t, -t)\<close> scores 100 (the formula is
    not a distance), a non-numeric coordinate raises \<open>TypeError\<close>.
  \<^item> \<open>Service\<close>: the table (\<open>user_row\<close>, \<open>users\<close>), the bcrypt collaborator
    \<open>cred_verifier\<close> with its contract \<open>verifier_sound\<close>, \<open>db_upsert\<close>/\<open>db_select\<close>,
    and the handlers \<open>enroll\<close> (lines 58--112) and \<open>verify\<close> (lines 114--201), each a
    \<open>try\<close> body plus its 500 fallback. C23--C27, C16, C18: enroll-then-verify gives
    the spec's 85/allow for every user, re-enrollment replaces the row, the 400, 404
    and 403 paths, a verification without password never gets 403 and does not
    depend on the verifier, and with the database down nothing succeeds and the
    table is unchanged.
  \<^item> \<open>Session\<close>: the routes as an inductive step relation \<open>handles\<close> over the table,
    reachable tables, the store invariant by rule induction. C31--C33: invariant,
    every enrolled user can authenticate, last writer wins.
  \<^item> This theory: C28--C30 and C14, properties across the scorers and the handlers: a
    keystroke field that is not an object gives 500, a user enrolled with string
    coordinates can never verify with the same body, a face override of 300 forces
    allow, and a non-finite face override decides alone (infinity allow, NaN block).

  \<^bold>\<open>Bounds and fuel.\<close> No loop of the program is unbounded: the only recursion is the
  digit scanner of \<open>float()\<close>, structural on the string; the printer
  \<open>digits_of_nat\<close> of the round trip recurses on \<open>n div 10\<close>, a \<open>fun\<close> whose
  termination is proved. No fuel is used.

  \<^bold>\<open>Numbers.\<close> Python floats are modelled exactly: a value such as \<open>0.55\<close> is the
  real 55/100, not the nearest binary double, and \<open>round(x, 2)\<close> rounds the exact
  value half to even. The model therefore agrees with CPython except where binary
  rounding moves a value across a rounding or threshold boundary.

  \<^bold>\<open>Not modelled.\<close> The Flask routing and \<open>render_template\<close> (\<open>home\<close>), CORS, the
  browser launch under \<open>__main__\<close>, the logging \<open>print\<close> calls (except where they
  raise), bcrypt's internals and MySQL's collation and type coercions.
\<close>

section \<open>Properties that span the components\<close>

text \<open>
  C28: a \<open>keystroke\<close> field that is not an object (for instance \<open>null\<close>) does not
  degrade to a low score as the spec's fail-closed policy says (section 7): the scorer
  returns 0.0, but the debug \<open>print\<close> of line 187 calls \<open>ks.get\<close> again and the whole
  verification fails with a 500 \<open>AttributeError\<close>.
\<close>

theorem verify_keystroke_not_dict_fails:
  assumes "is_dict data" "jget data ''username'' JNull = Inr u" "py_truthy u" "sql_ok u"
    and "db u = Some user" "jget data ''password'' JNull = Inr password"
    and "password_ok v password user = Inr True"
    and "jget data ''keystroke'' (JObj []) = Inr ks" "\<not> is_dict ks"
    and "jget data ''geo'' (JObj []) = Inr geo" "geo_score (latitude user) (longitude user) geo = Inr g"
  shows "verify v True data db = (500, RFailure ''Verification failed'' AttributeError)"
proof -
  have "jget ks ''avgDwell'' JNull = Inl AttributeError" using assms(9) by (cases ks) simp_all
  with assms show ?thesis
    by (cases data) (simp_all add: verify_def verify_try_def db_select_def Let_def)
qed

theorem verify_keystroke_not_dict_fails_witness:
  "is_dict (JObj [(''username'', JStr ''alice''), (''keystroke'', JNull)])
   \<and> jget (JObj [(''username'', JStr ''alice''), (''keystroke'', JNull)]) ''username'' JNull = Inr (JStr ''alice'')
   \<and> py_truthy (JStr ''alice'') \<and> sql_ok (JStr ''alice'')
   \<and> [JStr ''alice'' \<mapsto> demo_row] (JStr ''alice'') = Some demo_row
   \<and> jget (JObj [(''username'', JStr ''alice''), (''keystroke'', JNull)]) ''password'' JNull = Inr JNull
   \<and> password_ok demo_verifier JNull demo_row = Inr True
   \<and> jget (JObj [(''username'', JStr ''alice''), (''keystroke'', JNull)]) ''keystroke'' (JObj []) = Inr JNull
   \<and> \<not> is_dict JNull
   \<and> jget (JObj [(''username'', JStr ''alice''), (''keystroke'', JNull)]) ''geo'' (JObj []) = Inr (JObj [])
   \<and> geo_score (latitude demo_row) (longitude demo_row) (JObj []) = Inr 0
   \<and> verify demo_verifier True (JObj [(''username'', JStr ''alice''), (''keystroke'', JNull)])
        [JStr ''alice'' \<mapsto> demo_row] = (500, RFailure ''Verification failed'' AttributeError)"
proof -
  have h: "is_dict (JObj [(''username'', JStr ''alice''), (''keystroke'', JNull)])"
    "jget (JObj [(''username'', JStr ''alice''), (''keystroke'', JNull)]) ''username'' JNull = Inr (JStr ''alice'')"
    "py_truthy (JStr ''alice'')" "sql_ok (JStr ''alice'')"
    "[JStr ''alice'' \<mapsto> demo_row] (JStr ''alice'') = Some demo_row"
    "jget (JObj [(''username'', JStr ''alice''), (''keystroke'', JNull)]) ''password'' JNull = Inr JNull"
    "password_ok demo_verifier JNull demo_row = Inr True"
    "jget (JObj [(''username'', JStr ''alice''), (''keystroke'', JNull)]) ''keystroke'' (JObj []) = Inr JNull"
    "\<not> is_dict JNull"
    "jget (JObj [(''username'', JStr ''alice''), (''keystroke'', JNull)]) ''geo'' (JObj []) = Inr (JObj [])"
    by (simp_all add: password_ok_def)
  have g: "geo_score (latitude demo_row) (longitude demo_row) (JObj []) = Inr 0"
    by (simp add: demo_row_def geo_score_code py_num_sub_def geo_bucket_float_def geo_bucket_radicand_def)
  show ?thesis
    using h g verify_keystroke_not_dict_fails [where db = "[JStr ''alice'' \<mapsto> demo_row]", OF h g] by simp
qed

text \<open>
  C29: enrollment converts the coordinates with \<open>float()\<close> but verification does not
  (lines 87--88 against 160--162). A user whose enrollment succeeded with a coordinate
  that is not a JSON number (so a numeric string such as \<open>"10"\<close>, which \<open>float()\<close>
  accepted) can never be verified with the same request body: the password passes,
  but the subtraction raises \<open>TypeError\<close> and every such verification answers 500.
\<close>

theorem string_coordinates_enroll_but_never_verify:
  assumes sound: "verifier_sound v"
    and en: "enroll v True salt data db = ((200, RMessage u), db')"
    and geo: "jget data ''geo'' (JObj []) = Inr geo"
    and coords: "jget geo ''lat'' (JInt 0) = Inr vlat" "jget geo ''lon'' (JInt 0) = Inr vlon"
    and str: "num_val vlat = None \<or> num_val vlon = None"
  shows "verify v True data db' = (500, RFailure ''Verification failed'' TypeError)"
proof -
  obtain pw ks geo' face_v d f la lo where
    u: "jget data ''username'' JNull = Inr u" "py_truthy u" "sql_ok u"
    and pw: "jget data ''password'' JNull = Inr (JStr pw)" "pw \<noteq> []"
    and ks: "jget data ''keystroke'' (JObj []) = Inr ks" and g': "jget data ''geo'' (JObj []) = Inr geo'"
    and kd: "get_float ks ''avgDwell'' = Inr (Fin d)"
    and db': "db' = db(u \<mapsto> \<lparr>password_hash = hashpw v pw salt, avgDwell = d, avgFlight = f,
                      face = face_v, latitude = la, longitude = lo\<rparr>)"
    using enroll_success [OF en] by metis
  define row where "row = \<lparr>password_hash = hashpw v pw salt, avgDwell = d, avgFlight = f,
                      face = face_v, latitude = la, longitude = lo\<rparr>"
  have "is_dict data" using u(1) by (cases data) simp_all
  then obtain fv fo where fv: "jget data ''face'' JNull = Inr fv" "jget data ''face_score'' JNull = Inr fo"
    using jget_dict_Inr by metis
  have "geo' = geo" using g' geo by simp
  have pw_ok: "password_ok v (JStr pw) row = Inr True"
    using sound pw(2) by (simp add: password_ok_def verifier_sound_def row_def)
  have gs: "geo_score (latitude row) (longitude row) geo = Inl TypeError"
    using coords str by (auto simp: geo_score_def geo_dist_def py_num_sub_def split: option.split)
  show ?thesis
    using u pw(1) ks geo fv pw_ok gs
    by (simp add: verify_def verify_try_def db_select_def db' row_def [symmetric] Let_def)
qed

theorem string_coordinates_enroll_but_never_verify_witness:
  "verifier_sound demo_verifier
   \<and> enroll demo_verifier True ''$2b$''
      (JObj [(''username'', JStr ''alice''), (''password'', JStr ''s3cret''),
             (''keystroke'', JObj [(''avgDwell'', JInt 100), (''avgFlight'', JInt 50)]),
             (''geo'', JObj [(''lat'', JStr ''10''), (''lon'', JStr ''20'')])]) Map.empty
     = ((200, RMessage (JStr ''alice'')), [JStr ''alice'' \<mapsto> demo_row])
   \<and> jget (JObj [(''username'', JStr ''alice''), (''password'', JStr ''s3cret''),
             (''keystroke'', JObj [(''avgDwell'', JInt 100), (''avgFlight'', JInt 50)]),
             (''geo'', JObj [(''lat'', JStr ''10''), (''lon'', JStr ''20'')])]) ''geo'' (JObj [])
     = Inr (JObj [(''lat'', JStr ''10''), (''lon'', JStr ''20'')])
   \<and> jget (JObj [(''lat'', JStr ''10''), (''lon'', JStr ''20'')]) ''lat'' (JInt 0) = Inr (JStr ''10'')
   \<and> jget (JObj [(''lat'', JStr ''10''), (''lon'', JStr ''20'')]) ''lon'' (JInt 0) = Inr (JStr ''20'')
   \<and> num_val (JStr ''10'') = None
   \<and> verify demo_verifier True
      (JObj [(''username'', JStr ''alice''), (''password'', JStr ''s3cret''),
             (''keystroke'', JObj [(''avgDwell'', JInt 100), (''avgFlight'', JInt 50)]),
             (''geo'', JObj [(''lat'', JStr ''10''), (''lon'', JStr ''20'')])]) [JStr ''alice'' \<mapsto> demo_row]
     = (500, RFailure ''Verification failed'' TypeError)"
proof -
  have g: "get_float (JObj [(''lat'', JStr ''10''), (''lon'', JStr ''20'')]) ''lat'' = Inr (Fin 10)"
    "get_float (JObj [(''lat'', JStr ''10''), (''lon'', JStr ''20'')]) ''lon'' = Inr (Fin 20)"
    by code_simp+
  have e: "enroll demo_verifier True ''$2b$''
      (JObj [(''username'', JStr ''alice''), (''password'', JStr ''s3cret''),
             (''keystroke'', JObj [(''avgDwell'', JInt 100), (''avgFlight'', JInt 50)]),
             (''geo'', JObj [(''lat'', JStr ''10''), (''lon'', JStr ''20'')])]) Map.empty
     = ((200, RMessage (JStr ''alice'')), [JStr ''alice'' \<mapsto> demo_row])"
    using g by (simp add: enroll_def enroll_try_def demo_verifier_def demo_row_def db_upsert_def Let_def
        get_float_JObj)
  have h: "jget (JObj [(''username'', JStr ''alice''), (''password'', JStr ''s3cret''),
             (''keystroke'', JObj [(''avgDwell'', JInt 100), (''avgFlight'', JInt 50)]),
             (''geo'', JObj [(''lat'', JStr ''10''), (''lon'', JStr ''20'')])]) ''geo'' (JObj [])
     = Inr (JObj [(''lat'', JStr ''10''), (''lon'', JStr ''20'')])"
    "jget (JObj [(''lat'', JStr ''10''), (''lon'', JStr ''20'')]) ''lat'' (JInt 0) = Inr (JStr ''10'')"
    "jget (JObj [(''lat'', JStr ''10''), (''lon'', JStr ''20'')]) ''lon'' (JInt 0) = Inr (JStr ''20'')"
    "num_val (JStr ''10'') = None \<or> num_val (JStr ''20'') = None"
    by simp_all
  show ?thesis
    using demo_verifier_sound e h string_coordinates_enroll_but_never_verify [OF demo_verifier_sound e h] by simp
qed

text \<open>
  C14: a face override that \<open>float()\<close> reads as a non-finite value decides the outcome on
  its own, whatever the keystroke and geo scores: every scored response whose face
  score is infinite (\<open>"inf"\<close>, \<open>"Infinity"\<close>) is allow, and one whose face score is
  NaN or minus infinity is block (NaN propagates into the total and fails every
  \<open>>=\<close> test).
\<close>

theorem face_override_nonfinite_decides:
  assumes "verify v db_up data db = (200, RScores u k f g t res)"
  shows "(f = PInf \<longrightarrow> res = Allow) \<and> (f = NaN \<longrightarrow> res = Block) \<and> (f = NInf \<longrightarrow> res = Block)"
proof -
  obtain user ks geo fo where e: "k = keystroke_similarity (stored_keystroke user) ks"
      "t = total_score k f g" "res = decide t"
    using verify_scores_elim [OF assms] by metis
  obtain r where "k = Fin r" using keystroke_similarity_bounds e(1) by blast
  then show ?thesis using e(2,3) by (simp add: total_score_def decide_def fge_def fle_def)
qed

theorem face_override_nonfinite_decides_witness:
  "verify demo_verifier True
      (JObj [(''username'', JStr ''alice''), (''keystroke'', JObj [(''avgDwell'', JInt 0), (''avgFlight'', JInt 0)]),
             (''geo'', JObj [(''lat'', JInt 5), (''lon'', JInt 15)]), (''face_score'', JStr ''inf'')])
      [JStr ''alice'' \<mapsto> demo_row]
     = (200, RScores (JStr ''alice'') (Fin 0) PInf 0 PInf Allow)
   \<and> Allow = Allow"
proof -
  have h: "verify demo_verifier True
      (JObj [(''username'', JStr ''alice''), (''keystroke'', JObj [(''avgDwell'', JInt 0), (''avgFlight'', JInt 0)]),
             (''geo'', JObj [(''lat'', JInt 5), (''lon'', JInt 15)]), (''face_score'', JStr ''inf'')])
      [JStr ''alice'' \<mapsto> demo_row]
     = (200, RScores (JStr ''alice'') (Fin 0) PInf 0 PInf Allow)"
    by code_simp
  show ?thesis using h face_override_nonfinite_decides [OF h] by simp
qed

text \<open>
  C30: the face score is taken from the request without a range check, so a client that
  sends \<open>face_score\<close> of at least 300 is allowed whatever its keystroke and geo scores:
  every scored response to such a request carries the decision allow.
\<close>

theorem face_override_forces_allow:
  assumes "verify v db_up data db = (200, RScores u k f g t res)"
    and "jget data ''face_score'' JNull = Inr fo" "py_float fo = Inr (Fin x)" "300 \<le> x"
  shows "res = Allow"
proof -
  obtain user ks geo fo' where e: "jget data ''face_score'' JNull = Inr fo'" "f = face_score_from_value fo'"
      "k = keystroke_similarity (stored_keystroke user) ks" "t = total_score k f g" "res = decide t"
    using verify_scores_elim [OF assms(1)] by metis
  from e(1) assms(2) have "f = Fin x" using e(2) assms(3) by (simp add: face_score_from_value_eq)
  obtain r where r: "k = Fin r" "0 \<le> r" using keystroke_similarity_bounds e(3) by blast
  have "75 \<le> r * 0.55 + x * 0.25 + of_nat g * 0.20" using r(2) assms(4) by simp
  then have "round2 75 \<le> round2 (r * 0.55 + x * 0.25 + of_nat g * 0.20)" by (rule round2_mono)
  then have "75 \<le> round2 (r * 0.55 + x * 0.25 + of_nat g * 0.20)" by simp
  then show ?thesis using e(4,5) r(1) \<open>f = Fin x\<close> by (simp add: total_score_Fin decide_Fin)
qed

theorem face_override_forces_allow_witness:
  "verify demo_verifier True
      (JObj [(''username'', JStr ''alice''), (''keystroke'', JObj [(''avgDwell'', JInt 0), (''avgFlight'', JInt 0)]),
             (''geo'', JObj [(''lat'', JInt 5), (''lon'', JInt 15)]), (''face_score'', JInt 300)])
      [JStr ''alice'' \<mapsto> demo_row]
     = (200, RScores (JStr ''alice'') (Fin 0) (Fin 300) 0 (Fin 75) Allow)
   \<and> jget (JObj [(''username'', JStr ''alice''), (''keystroke'', JObj [(''avgDwell'', JInt 0), (''avgFlight'', JInt 0)]),
             (''geo'', JObj [(''lat'', JInt 5), (''lon'', JInt 15)]), (''face_score'', JInt 300)]) ''face_score'' JNull
       = Inr (JInt 300)
   \<and> py_float (JInt 300) = Inr (Fin 300) \<and> (300::real) \<le> 300 \<and> Allow = Allow"
proof -
  have h: "verify demo_verifier True
      (JObj [(''username'', JStr ''alice''), (''keystroke'', JObj [(''avgDwell'', JInt 0), (''avgFlight'', JInt 0)]),
             (''geo'', JObj [(''lat'', JInt 5), (''lon'', JInt 15)]), (''face_score'', JInt 300)])
      [JStr ''alice'' \<mapsto> demo_row]
     = (200, RScores (JStr ''alice'') (Fin 0) (Fin 300) 0 (Fin 75) Allow)"
    by code_simp
  have h2: "jget (JObj [(''username'', JStr ''alice''), (''keystroke'', JObj [(''avgDwell'', JInt 0), (''avgFlight'', JInt 0)]),
             (''geo'', JObj [(''lat'', JInt 5), (''lon'', JInt 15)]), (''face_score'', JInt 300)]) ''face_score'' JNull
       = Inr (JInt 300)" "py_float (JInt 300) = Inr (Fin 300)" "(300::real) \<le> 300"
    by simp_all
  show ?thesis using h h2 face_override_forces_allow [OF h h2] by simp
qed

end
